theory Spec2Isabelle
  imports Main "HOL-Library.AList"
begin

section \<open>JavaScript values and thrown errors\<close>

text \<open>
  Job payloads, step results and thrown values are dynamically typed (\<open>any\<close>) in the
  source. They are modelled as the values JSON can carry, with \<open>undefined\<close> kept
  apart from \<open>null\<close>: the source tells them apart (\<open>??\<close>, \<open>.default()\<close>,
  \<open>.nullish()\<close>). An object is its list of own entries, in the order \<open>Object.keys\<close>
  gives them. Numbers are integers (counters, priorities and millisecond timestamps are
  all the engine uses), each standing for the double of that value; fractions, \<open>NaN\<close>
  and the infinities are left out.
\<close>

datatype jsval =
    JUndefined
  | JNull
  | JBool bool
  | JNum int
  | JStr string
  | JArr "jsval list"
  | JObj "(string \<times> jsval) list"

text \<open>
  Property read \<open>v[k]\<close> for a key that \<open>Object.prototype\<close> has no member for (the
  keys of the schemas are such): a missing key, or a read on a non-object, is
  \<open>undefined\<close>. The one read of the engine with an arbitrary key, that of a step's
  state by the step's identifier, is \<open>getState\<close> below.
\<close>

fun field :: "string \<Rightarrow> jsval \<Rightarrow> jsval" where
  "field k (JObj kvs) = (case map_of kvs k of None \<Rightarrow> JUndefined | Some v \<Rightarrow> v)"
| "field k v = JUndefined"

text \<open>The nullish coalescing operator \<open>a ?? b\<close>.\<close>

fun nullish :: "jsval \<Rightarrow> bool" where
  "nullish JUndefined = True"
| "nullish JNull = True"
| "nullish v = False"

definition coalesce :: "jsval \<Rightarrow> jsval \<Rightarrow> jsval" where
  "coalesce a b = (if nullish a then b else a)"

text \<open>
  What a function of the engine can throw: an \<open>Error\<close> with its message, zod's
  validation error, BullMQ's \<open>DelayedError\<close> (the suspend signal) and
  \<open>UnrecoverableError\<close>, or whatever value user code throws.
\<close>

datatype exn = Error string | ZodError | DelayedError | UnrecoverableError | Thrown jsval

definition bindE :: "'e + 'a \<Rightarrow> ('a \<Rightarrow> 'e + 'b) \<Rightarrow> 'e + 'b" where
  "bindE m f = (case m of Inl e \<Rightarrow> Inl e | Inr x \<Rightarrow> f x)"

section \<open>Job.ts: the payload schemas\<close>

text \<open>\<open>StatusSchema\<close>: the enum of Job.ts has four members.\<close>

datatype status = Pending | Active | Completed | Failed

fun encode_status :: "status \<Rightarrow> jsval" where
  "encode_status Pending = JStr ''pending''"
| "encode_status Active = JStr ''active''"
| "encode_status Completed = JStr ''completed''"
| "encode_status Failed = JStr ''failed''"

text \<open>\<open>StatusSchema.parse\<close>, without the default.\<close>

fun parse_status :: "jsval \<Rightarrow> exn + status" where
  "parse_status (JStr s) =
     (if s = ''pending'' then Inr Pending
      else if s = ''active'' then Inr Active
      else if s = ''completed'' then Inr Completed
      else if s = ''failed'' then Inr Failed
      else Inl ZodError)"
| "parse_status v = Inl ZodError"

text \<open>\<open>schema.default(d)\<close>: only \<open>undefined\<close> takes the default; \<open>null\<close> is validated.\<close>

definition with_default :: "'a \<Rightarrow> (jsval \<Rightarrow> exn + 'a) \<Rightarrow> jsval \<Rightarrow> exn + 'a" where
  "with_default d p v = (if v = JUndefined then Inr d else p v)"

fun parse_string :: "jsval \<Rightarrow> exn + string" where
  "parse_string (JStr s) = Inr s"
| "parse_string v = Inl ZodError"

fun parse_number :: "jsval \<Rightarrow> exn + int" where
  "parse_number (JNum n) = Inr n"
| "parse_number v = Inl ZodError"

fun parse_boolean :: "jsval \<Rightarrow> exn + bool" where
  "parse_boolean (JBool b) = Inr b"
| "parse_boolean v = Inl ZodError"

text \<open>\<open>z.number().nullish()\<close>: a number, \<open>null\<close> or \<open>undefined\<close>, kept as it is.\<close>

datatype nullish_number = NumUndefined | NumNull | Num int

fun parse_nullish_number :: "jsval \<Rightarrow> exn + nullish_number" where
  "parse_nullish_number JUndefined = Inr NumUndefined"
| "parse_nullish_number JNull = Inr NumNull"
| "parse_nullish_number (JNum n) = Inr (Num n)"
| "parse_nullish_number v = Inl ZodError"

fun encode_nullish_number :: "nullish_number \<Rightarrow> jsval" where
  "encode_nullish_number NumUndefined = JUndefined"
| "encode_nullish_number NumNull = JNull"
| "encode_nullish_number (Num n) = JNum n"

text \<open>\<open>StepStateSchema\<close>; \<open>data\<close>, \<open>error\<close> and \<open>result\<close> are \<open>z.any().nullish()\<close>.\<close>

record step_state =
  slug :: string
  status :: status
  attempts :: int
  data :: jsval
  error :: jsval
  result :: jsval

definition parse_step_state :: "jsval \<Rightarrow> exn + step_state" where
  "parse_step_state v =
     (case v of
        JObj kvs \<Rightarrow>
          bindE (parse_string (field ''slug'' v)) (\<lambda>sl.
          bindE (with_default Pending parse_status (field ''status'' v)) (\<lambda>st.
          bindE (with_default 0 parse_number (field ''attempts'' v)) (\<lambda>n.
          Inr \<lparr>slug = sl, status = st, attempts = n, data = field ''data'' v,
               error = field ''error'' v, result = field ''result'' v\<rparr>)))
      | _ \<Rightarrow> Inl ZodError)"

definition encode_step_state :: "step_state \<Rightarrow> jsval" where
  "encode_step_state st =
     JObj [(''slug'', JStr (slug st)), (''status'', encode_status (status st)),
           (''attempts'', JNum (attempts st)), (''data'', data st),
           (''error'', error st), (''result'', result st)]"

text \<open>\<open>AttemptSchema\<close>.\<close>

datatype attempt_type = JobAttempt | StepAttempt

datatype attempt_status = AttemptActive | AttemptFailed | AttemptCompleted

record attempt =
  a_type :: attempt_type
  a_status :: attempt_status
  a_name :: string
  a_start :: int
  a_end :: nullish_number
  a_duration :: nullish_number
  a_error :: jsval

fun parse_attempt_type :: "jsval \<Rightarrow> exn + attempt_type" where
  "parse_attempt_type (JStr s) =
     (if s = ''job'' then Inr JobAttempt
      else if s = ''step'' then Inr StepAttempt
      else Inl ZodError)"
| "parse_attempt_type v = Inl ZodError"

fun encode_attempt_type :: "attempt_type \<Rightarrow> jsval" where
  "encode_attempt_type JobAttempt = JStr ''job''"
| "encode_attempt_type StepAttempt = JStr ''step''"

fun parse_attempt_status :: "jsval \<Rightarrow> exn + attempt_status" where
  "parse_attempt_status (JStr s) =
     (if s = ''active'' then Inr AttemptActive
      else if s = ''failed'' then Inr AttemptFailed
      else if s = ''completed'' then Inr AttemptCompleted
      else Inl ZodError)"
| "parse_attempt_status v = Inl ZodError"

fun encode_attempt_status :: "attempt_status \<Rightarrow> jsval" where
  "encode_attempt_status AttemptActive = JStr ''active''"
| "encode_attempt_status AttemptFailed = JStr ''failed''"
| "encode_attempt_status AttemptCompleted = JStr ''completed''"

definition parse_attempt :: "jsval \<Rightarrow> exn + attempt" where
  "parse_attempt v =
     (case v of
        JObj kvs \<Rightarrow>
          bindE (parse_attempt_type (field ''type'' v)) (\<lambda>ty.
          bindE (parse_attempt_status (field ''status'' v)) (\<lambda>st.
          bindE (parse_string (field ''name'' v)) (\<lambda>nm.
          bindE (parse_number (field ''start'' v)) (\<lambda>b.
          bindE (parse_nullish_number (field ''end'' v)) (\<lambda>e.
          bindE (parse_nullish_number (field ''duration'' v)) (\<lambda>d.
          Inr \<lparr>a_type = ty, a_status = st, a_name = nm, a_start = b, a_end = e,
               a_duration = d, a_error = field ''error'' v\<rparr>))))))
      | _ \<Rightarrow> Inl ZodError)"

definition encode_attempt :: "attempt \<Rightarrow> jsval" where
  "encode_attempt a =
     JObj [(''type'', encode_attempt_type (a_type a)),
           (''status'', encode_attempt_status (a_status a)),
           (''name'', JStr (a_name a)), (''start'', JNum (a_start a)),
           (''end'', encode_nullish_number (a_end a)),
           (''duration'', encode_nullish_number (a_duration a)),
           (''error'', a_error a)]"

text \<open>
  \<open>ActiveJobSchema\<close>. The record \<open>__state\<close> keeps its entries in the order the
  object lists them; \<open>z.object\<close> drops every key the schema does not name. (What zod
  makes of an entry of \<open>__state\<close> under the key \<open>__proto__\<close> depends on its
  version; the general statements about steps are about payloads without one.)
\<close>

record job_data =
  source :: jsval
  prepared :: bool
  state :: "(string \<times> step_state) list"
  job_attempts :: "attempt list"
  step_attempts :: "attempt list"

fun parse_state_entries :: "(string \<times> jsval) list \<Rightarrow> exn + (string \<times> step_state) list" where
  "parse_state_entries [] = Inr []"
| "parse_state_entries ((k, v) # kvs) =
     bindE (parse_step_state v) (\<lambda>st.
     bindE (parse_state_entries kvs) (\<lambda>rest. Inr ((k, st) # rest)))"

fun parse_state_record :: "jsval \<Rightarrow> exn + (string \<times> step_state) list" where
  "parse_state_record (JObj kvs) = parse_state_entries kvs"
| "parse_state_record v = Inl ZodError"

fun parse_attempt_list :: "jsval list \<Rightarrow> exn + attempt list" where
  "parse_attempt_list [] = Inr []"
| "parse_attempt_list (v # vs) =
     bindE (parse_attempt v) (\<lambda>a.
     bindE (parse_attempt_list vs) (\<lambda>rest. Inr (a # rest)))"

fun parse_attempt_array :: "jsval \<Rightarrow> exn + attempt list" where
  "parse_attempt_array (JArr vs) = parse_attempt_list vs"
| "parse_attempt_array v = Inl ZodError"

text \<open>\<open>ActiveJob.parse\<close>, that is \<open>ActiveJobSchema.parse\<close>.\<close>

definition parse :: "jsval \<Rightarrow> exn + job_data" where
  "parse v =
     (case v of
        JObj kvs \<Rightarrow>
          bindE (with_default False parse_boolean (field ''__prepared'' v)) (\<lambda>p.
          bindE (with_default [] parse_state_record (field ''__state'' v)) (\<lambda>st.
          bindE (with_default [] parse_attempt_array (field ''__attempts'' v)) (\<lambda>ja.
          bindE (with_default [] parse_attempt_array (field ''__step_attempts'' v)) (\<lambda>sa.
          Inr \<lparr>source = field ''source'' v, prepared = p, state = st,
               job_attempts = ja, step_attempts = sa\<rparr>))))
      | _ \<Rightarrow> Inl ZodError)"

text \<open>The JavaScript object that a parsed payload is.\<close>

definition encode_job :: "job_data \<Rightarrow> jsval" where
  "encode_job d =
     JObj [(''source'', source d), (''__prepared'', JBool (prepared d)),
           (''__state'', JObj (map (\<lambda>(k, st). (k, encode_step_state st)) (state d))),
           (''__attempts'', JArr (map encode_attempt (job_attempts d))),
           (''__step_attempts'', JArr (map encode_attempt (step_attempts d)))]"

section \<open>The queue backend and the running invocation\<close>

text \<open>
  BullMQ is outside the repository. Its job object is modelled by what the engine uses
  of it: \<open>bull_data\<close> is \<open>bullJob.data\<close>, \<open>stored\<close> is the payload the backend holds
  for the next delivery, and \<open>calls\<close> is the trace of the backend calls the engine made.
  \<open>bullJob.updateData(d)\<close> sets both payloads; the backend calls themselves never fail,
  and the backend hands the payload back as it was stored (its serialization is not
  modelled).
  \<open>Date.now()\<close> reads the next value of an arbitrary time line. The next four fields
  are the \<open>RunnerContext\<close> of the invocation, and \<open>world\<close> is whatever the user's step
  handlers act on. \<open>member_writes\<close> belongs to the JavaScript runtime of the worker
  process: for each member of \<open>Object.prototype\<close> that the engine has taken for a
  step's state, the members the engine has written on it, in the order written. It is
  empty in a fresh runtime, and stays so unless a step is named like such a member.
\<close>

datatype backend_call =
    UpdateData jsval
  | ChangePriority int
  | MoveToDelayed int "string option"

datatype log_level = Debug | Info | Warn | LogError

text \<open>
  What \<open>data.__state[this.id] || null\<close> reads. The record of step states is a plain
  object, so an identifier that has no entry of its own and names a member of
  \<open>Object.prototype\<close> reads that member: a function or, for \<open>__proto__\<close>, the
  prototype object itself. Such a member is truthy; it comes with the members the
  engine has written on it so far (none in a fresh runtime). Otherwise the read gives
  the step's stored state, or \<open>null\<close>.
\<close>

datatype state_read =
    NoState
  | StoredState step_state
  | InheritedMember "(string \<times> jsval) list"

text \<open>\<open>state.status === "completed"\<close> and \<open>state.result\<close> on what was read.\<close>

fun read_completed :: "state_read \<Rightarrow> bool" where
  "read_completed (StoredState st) = (status st = Completed)"
| "read_completed (InheritedMember ps) = (field ''status'' (JObj ps) = JStr ''completed'')"
| "read_completed NoState = False"

fun read_result :: "state_read \<Rightarrow> jsval" where
  "read_result (StoredState st) = result st"
| "read_result (InheritedMember ps) = field ''result'' (JObj ps)"
| "read_result NoState = JUndefined"

text \<open>
  \<open>ExecuteResult\<close> of JobRunner.ts. The \<open>sleep\<close> thunk is \<open>this.#runSleep\<close> of the
  step runner that built the result, so a flag says whether it is there. The optional
  \<open>error\<close> member is never assigned by the source and is left out.
\<close>

datatype run_status = NoRun | RunCompleted | RunFailed

record execute_result =
  er_status :: run_status
  er_result :: jsval
  er_state :: state_read
  er_sleep :: bool

datatype log_data = NoData | Data jsval | ResultData execute_result | ErrorData exn

record log_entry =
  level :: log_level
  message :: string
  log_data :: log_data

record 'w sys =
  bull_data :: jsval
  stored :: jsval
  calls :: "backend_call list"
  timeline :: "nat \<Rightarrow> int"
  ticks :: nat
  logs :: "log_entry list"
  jobAttempt :: attempt
  stepAttempts :: "attempt list"
  steps :: "string list"
  world :: 'w
  member_writes :: "(string \<times> (string \<times> jsval) list) list"

text \<open>
  A job as the worker receives it in a fresh runtime: payload \<open>d\<close>, nothing called
  yet and no runner context made yet, with a clock that reads 0, 1, 2, ... (the
  examples use it).
\<close>

definition delivered :: "jsval \<Rightarrow> 'w \<Rightarrow> 'w sys" where
  "delivered d w =
     \<lparr>bull_data = d, stored = d, calls = [], timeline = (\<lambda>n. int n), ticks = 0,
      logs = [],
      jobAttempt = \<lparr>a_type = JobAttempt, a_status = AttemptActive, a_name = ''job'',
                    a_start = 0, a_end = NumNull, a_duration = NumUndefined,
                    a_error = JNull\<rparr>,
      stepAttempts = [], steps = [], world = w, member_writes = []\<rparr>"

section \<open>Job.ts: ActiveJob\<close>

text \<open>
  \<open>ActiveJob.prepare\<close>: returns the parsed payload; a payload that is not yet prepared
  is wrapped, and the wrapped payload replaces \<open>bullJob.data\<close>.
\<close>

definition prepare :: "'w sys \<Rightarrow> (exn + job_data) \<times> 'w sys" where
  "prepare s =
     (case parse (bull_data s) of
        Inl e \<Rightarrow> (Inl e, s)
      | Inr parsedOriginal \<Rightarrow>
          if prepared parsedOriginal then (Inr parsedOriginal, s)
          else
            (case parse (JObj [(''source'', bull_data s), (''__prepared'', JBool True)]) of
               Inl e \<Rightarrow> (Inl e, s)
             | Inr newData \<Rightarrow> (Inr newData, s\<lparr>bull_data := encode_job newData\<rparr>)))"

definition getParsedData :: "'w sys \<Rightarrow> exn + job_data" where
  "getParsedData s = parse (bull_data s)"

text \<open>\<open>ActiveJob.updateData\<close>: validate, then \<open>bullJob.updateData\<close>.\<close>

definition updateData :: "job_data \<Rightarrow> 'w sys \<Rightarrow> (exn + unit) \<times> 'w sys" where
  "updateData input s =
     (case parse (encode_job input) of
        Inl e \<Rightarrow> (Inl e, s)
      | Inr parsedUpdatedData \<Rightarrow>
          (Inr (),
           s\<lparr>bull_data := encode_job parsedUpdatedData,
             stored := encode_job parsedUpdatedData,
             calls := calls s @ [UpdateData (encode_job parsedUpdatedData)]\<rparr>))"


section \<open>JobRunner.ts: the runner context\<close>

definition dateNow :: "'w sys \<Rightarrow> int \<times> 'w sys" where
  "dateNow s = (timeline s (ticks s), s\<lparr>ticks := Suc (ticks s)\<rparr>)"

text \<open>\<open>ContextLogger.log\<close>: the entry goes to the in-memory list.\<close>

definition log :: "log_level \<Rightarrow> string \<Rightarrow> log_data \<Rightarrow> 'w sys \<Rightarrow> 'w sys" where
  "log lv msg d s = s\<lparr>logs := logs s @ [\<lparr>level = lv, message = msg, log_data = d\<rparr>]\<rparr>"

text \<open>\<open>ContextAttempt\<close>: constructor, \<open>fail\<close>, \<open>complete\<close> and \<open>format\<close>.\<close>

definition new_attempt :: "attempt_type \<Rightarrow> string \<Rightarrow> 'w sys \<Rightarrow> attempt \<times> 'w sys" where
  "new_attempt ty nm s =
     (case dateNow s of
        (now, s1) \<Rightarrow>
          (\<lparr>a_type = ty, a_status = AttemptActive, a_name = nm, a_start = now,
            a_end = NumNull, a_duration = NumUndefined, a_error = JNull\<rparr>, s1))"

definition attempt_fail :: "jsval \<Rightarrow> attempt \<Rightarrow> attempt" where
  "attempt_fail e a = a\<lparr>a_status := AttemptFailed, a_error := e\<rparr>"

definition attempt_complete :: "int \<Rightarrow> attempt \<Rightarrow> attempt" where
  "attempt_complete now a = a\<lparr>a_status := AttemptCompleted, a_end := Num now\<rparr>"

text \<open>\<open>!this.data.end\<close>: \<open>null\<close>, \<open>undefined\<close> and \<open>0\<close> are falsy.\<close>

fun falsy_number :: "nullish_number \<Rightarrow> bool" where
  "falsy_number (Num n) = (n = 0)"
| "falsy_number v = True"

fun number_or :: "nullish_number \<Rightarrow> int \<Rightarrow> int" where
  "number_or (Num n) d = n"
| "number_or v d = d"

text \<open>
  \<open>format\<close> returns the formatted entry and leaves the attempt with its \<open>end\<close> set:
  the result is (entry, attempt after the call).
\<close>

definition format :: "attempt \<Rightarrow> 'w sys \<Rightarrow> (attempt \<times> attempt) \<times> 'w sys" where
  "format a s =
     (case (if falsy_number (a_end a)
            then (case dateNow s of (now, s1) \<Rightarrow> (a\<lparr>a_end := Num now\<rparr>, s1))
            else (a, s)) of
        (a1, s1) \<Rightarrow>
          ((a1\<lparr>a_duration := Num (number_or (a_end a1) 0 - a_start a1)\<rparr>, a1), s1))"

text \<open>
  \<open>RunnerContext\<close>. An attempt handed out by \<open>_stepAttempt\<close> is an object of the list
  \<open>stepAttempts\<close>; its handle is its position there.
\<close>

fun modify_nth :: "nat \<Rightarrow> ('a \<Rightarrow> 'a) \<Rightarrow> 'a list \<Rightarrow> 'a list" where
  "modify_nth n f [] = []"
| "modify_nth 0 f (x # xs) = f x # xs"
| "modify_nth (Suc n) f (x # xs) = x # modify_nth n f xs"

definition new_context :: "'w sys \<Rightarrow> 'w sys" where
  "new_context s =
     (case new_attempt JobAttempt ''job'' s of
        (a, s1) \<Rightarrow> s1\<lparr>logs := [], jobAttempt := a, stepAttempts := [], steps := []\<rparr>)"

definition stepAttempt :: "string \<Rightarrow> 'w sys \<Rightarrow> nat \<times> 'w sys" where
  "stepAttempt i s =
     (case new_attempt StepAttempt (''step.'' @ i) s of
        (a, s1) \<Rightarrow> (length (stepAttempts s1), s1\<lparr>stepAttempts := stepAttempts s1 @ [a]\<rparr>))"

definition registerStep :: "string \<Rightarrow> 'w sys \<Rightarrow> 'w sys" where
  "registerStep i s = s\<lparr>steps := steps s @ [i]\<rparr>"

text \<open>\<open>stepAttempts.map(a => a.format())\<close>: (entries, attempts after the calls).\<close>

fun format_all :: "attempt list \<Rightarrow> 'w sys \<Rightarrow> (attempt list \<times> attempt list) \<times> 'w sys" where
  "format_all [] s = (([], []), s)"
| "format_all (a # as) s =
     (case format a s of
        ((e, a1), s1) \<Rightarrow>
          (case format_all as s1 of
             ((es, as1), s2) \<Rightarrow> ((e # es, a1 # as1), s2)))"

definition formatAttempts :: "'w sys \<Rightarrow> attempt list \<times> 'w sys" where
  "formatAttempts s =
     (case format_all (stepAttempts s) s of
        ((es, as1), s1) \<Rightarrow> (es, s1\<lparr>stepAttempts := as1\<rparr>))"

section \<open>Dispatcher.ts: the priority configuration\<close>

text \<open>
  Of \<open>ActionDispatcherConfigSchema\<close> the engine reads \<open>jobs.priority\<close> only. The input
  may leave the whole object out (\<open>.optional()\<close>); inside it \<open>enabled\<close> is required and
  the two values have defaults.
\<close>

record priority_input =
  in_enabled :: bool
  in_defaultValue :: "int option"
  in_delayDefaultValue :: "int option"

record priority_config =
  enabled :: bool
  defaultValue :: int
  delayDefaultValue :: int

definition parse_priority :: "priority_input option \<Rightarrow> priority_config option" where
  "parse_priority inp =
     (case inp of
        None \<Rightarrow> None
      | Some p \<Rightarrow>
          Some \<lparr>enabled = in_enabled p,
                defaultValue = (case in_defaultValue p of None \<Rightarrow> 2 | Some v \<Rightarrow> v),
                delayDefaultValue = (case in_delayDefaultValue p of None \<Rightarrow> 1 | Some v \<Rightarrow> v)\<rparr>)"

text \<open>
  What a runner and its active job hold fixed during an invocation: the purpose, the
  BullMQ token, the parsed priority configuration and the dispatcher's own schema for the
  source data (user supplied, so a parameter).
\<close>

datatype purpose = Execute | Analyze

record runner =
  purpose :: purpose
  bullToken :: "string option"
  priority :: "priority_config option"
  schema :: "jsval \<Rightarrow> exn + jsval"

definition getDefaultPriority :: "runner \<Rightarrow> int" where
  "getDefaultPriority r = (case priority r of None \<Rightarrow> 2 | Some p \<Rightarrow> defaultValue p)"

definition getDelayedPriority :: "runner \<Rightarrow> int" where
  "getDelayedPriority r = (case priority r of None \<Rightarrow> 1 | Some p \<Rightarrow> delayDefaultValue p)"

definition getSourceData :: "runner \<Rightarrow> 'w sys \<Rightarrow> exn + jsval" where
  "getSourceData r s = bindE (getParsedData s) (\<lambda>d. schema r (source d))"

section \<open>JobRunner.ts: StepRunner\<close>

text \<open>
  \<open>StepHandlerAlternatives\<close>. A step handler is user code: it acts on the user's world
  and returns a value (\<open>Inr\<close>) or throws one (\<open>Inl\<close>).
\<close>

datatype 'w alternatives =
    StepAlt "'w \<Rightarrow> (jsval + jsval) \<times> 'w"
  | SleepAlt int
  | SleepUntilAlt int
  | RepeatAlt int int
  | InvokeAlt

fun type_name :: "'w alternatives \<Rightarrow> string" where
  "type_name (StepAlt h) = ''step''"
| "type_name (SleepAlt d) = ''sleep''"
| "type_name (SleepUntilAlt t) = ''sleep-until''"
| "type_name (RepeatAlt i l) = ''repeat''"
| "type_name InvokeAlt = ''invoke-wait-for-result''"

text \<open>
  Template literals print a missing token as \<open>undefined\<close> and a number by its
  digits. \<open>show_int\<close> is that text for the integers below \<open>2^53\<close> in magnitude
  (the durations and timestamps of a queue); JavaScript prints a larger double by its
  shortest digits, which only the text of the log entry of \<open>#runSleep\<close> would show.
\<close>

fun digit :: "nat \<Rightarrow> char" where
  "digit n = (''0123456789'' ! (n mod 10))"

fun show_nat :: "nat \<Rightarrow> string" where
  "show_nat n = (if n < 10 then [digit n] else show_nat (n div 10) @ [digit n])"

declare show_nat.simps [simp del]

definition show_int :: "int \<Rightarrow> string" where
  "show_int i = (if i < 0 then ''-'' @ show_nat (nat (- i)) else show_nat (nat i))"

definition show_token :: "string option \<Rightarrow> string" where
  "show_token t = (case t of None \<Rightarrow> ''undefined'' | Some x \<Rightarrow> x)"

definition canRun :: "runner \<Rightarrow> bool" where
  "canRun r = (purpose r = Execute)"

text \<open>The names of the members of \<open>Object.prototype\<close>.\<close>

definition object_prototype_members :: "string list" where
  "object_prototype_members =
     [''constructor'', ''__defineGetter__'', ''__defineSetter__'', ''hasOwnProperty'',
      ''__lookupGetter__'', ''__lookupSetter__'', ''isPrototypeOf'',
      ''propertyIsEnumerable'', ''toString'', ''valueOf'', ''__proto__'',
      ''toLocaleString'']"

text \<open>
  The members the engine has written on the member of \<open>Object.prototype\<close> named
  \<open>i\<close>, and an assignment \<open>state.k = v\<close> to that member.
\<close>

definition member_props :: "string \<Rightarrow> 'w sys \<Rightarrow> (string \<times> jsval) list" where
  "member_props i s = (case map_of (member_writes s) i of None \<Rightarrow> [] | Some ps \<Rightarrow> ps)"

definition write_member :: "string \<Rightarrow> string \<Rightarrow> jsval \<Rightarrow> 'w sys \<Rightarrow> 'w sys" where
  "write_member i k v s =
     s\<lparr>member_writes :=
         AList.update i (AList.update k v (member_props i s)) (member_writes s)\<rparr>"

text \<open>
  A read \<open>e.k\<close> on an object that has no member \<open>k\<close> of its own, for the keys the
  engine reads on what \<open>execute\<close> threw (\<open>status\<close>, \<open>result\<close>): the object inherits
  what has been written on the prototype object, which is what \<open>__proto__\<close> names.
\<close>

definition prototype_member :: "string \<Rightarrow> 'w sys \<Rightarrow> jsval" where
  "prototype_member k s = field k (JObj (member_props ''__proto__'' s))"

definition getState :: "string \<Rightarrow> 'w sys \<Rightarrow> exn + state_read" where
  "getState i s =
     bindE (getParsedData s) (\<lambda>d.
       Inr (case map_of (state d) i of
              Some st \<Rightarrow> StoredState st
            | None \<Rightarrow>
                if i \<in> set object_prototype_members
                then InheritedMember (member_props i s)
                else NoState))"

text \<open>
  The assignment \<open>data.__state[this.id] = state\<close>, in the order \<open>Object.keys\<close> lists
  the result: an entry that is there keeps its place; a new key that is an array index
  (the decimal text of an integer from 0 to \<open>2^32 - 2\<close>) goes among the array indices,
  which come first in ascending order; any other new key goes last.
\<close>

definition is_digit :: "char \<Rightarrow> bool" where
  "is_digit c = (c \<in> set ''0123456789'')"

definition index_value :: "string \<Rightarrow> int" where
  "index_value k = foldl (\<lambda>n c. 10 * n + (of_char c - 48)) 0 k"

definition is_array_index :: "string \<Rightarrow> bool" where
  "is_array_index k =
     (k \<noteq> [] \<and> list_all is_digit k \<and> (k = ''0'' \<or> hd k \<in> set ''123456789'')
      \<and> index_value k < 2 ^ 32 - 1)"

fun insert_index :: "string \<Rightarrow> 'v \<Rightarrow> (string \<times> 'v) list \<Rightarrow> (string \<times> 'v) list" where
  "insert_index k v [] = [(k, v)]"
| "insert_index k v ((k', v') # kvs) =
     (if is_array_index k' \<and> index_value k' < index_value k
      then (k', v') # insert_index k v kvs
      else (k, v) # (k', v') # kvs)"

definition assign :: "string \<Rightarrow> 'v \<Rightarrow> (string \<times> 'v) list \<Rightarrow> (string \<times> 'v) list" where
  "assign k v kvs =
     (if map_of kvs k = None \<and> is_array_index k then insert_index k v kvs
      else AList.update k v kvs)"

definition setState :: "string \<Rightarrow> step_state \<Rightarrow> 'w sys \<Rightarrow> (exn + unit) \<times> 'w sys" where
  "setState i st s =
     (case getParsedData s of
        Inl e \<Rightarrow> (Inl e, s)
      | Inr d \<Rightarrow> updateData (d\<lparr>state := assign i st (state d)\<rparr>) s)"

text \<open>
  \<open>setState\<close> when the state at hand is an inherited member. A function is put under
  \<open>__state\<close>, and \<open>updateData\<close> rejects the payload, a function being no step state.
  On the prototype object the members just written are enumerable and every object
  inherits them, the record of step states too; zod's record schema walks the keys of
  the record with \<open>for ... in\<close>, so the validation of \<open>getParsedData\<close> meets them
  (a status, a result) where it expects step states, and rejects the payload. Either
  way zod's error is thrown and the backend is not called.
\<close>

definition setState_inherited :: "'w sys \<Rightarrow> exn \<times> 'w sys" where
  "setState_inherited s =
     (case getParsedData s of Inl e \<Rightarrow> (e, s) | Inr d \<Rightarrow> (ZodError, s))"

text \<open>
  Addition of two numbers: the double nearest to the sum, ties to the even mantissa of
  53 bits. (A sum beyond the finite doubles, which \<open>Date.now()\<close> plus a duration does
  not reach, would be an infinity.)
\<close>

function bit_length :: "int \<Rightarrow> nat" where
  "bit_length n = (if n \<le> 0 then 0 else Suc (bit_length (n div 2)))"
  by pat_completeness auto

termination
  by (relation "measure nat") auto

declare bit_length.simps [simp del]

definition to_double :: "int \<Rightarrow> int" where
  "to_double n =
     (let m = \<bar>n\<bar>;
          e = bit_length m - 53;
          q = m div 2 ^ e;
          r = m mod 2 ^ e;
          q' = (if 2 ^ e < 2 * r \<or> (2 * r = 2 ^ e \<and> odd q) then q + 1 else q)
      in if n < 0 then - (q' * 2 ^ e) else q' * 2 ^ e)"

definition js_add :: "int \<Rightarrow> int \<Rightarrow> int" where
  "js_add a b = to_double (a + b)"

text \<open>
  \<open>#runSleep\<close>: a duration of \<open>0\<close> is falsy, so the guard throws (as it would for
  \<open>NaN\<close>, which the integers leave out).
\<close>

definition runSleep :: "runner \<Rightarrow> 'w alternatives \<Rightarrow> 'w sys \<Rightarrow> (exn + unit) \<times> 'w sys" where
  "runSleep r opts s =
     (case opts of
        SleepAlt duration \<Rightarrow>
          if duration = 0 then (Inl (Error ''Missing duration or type for #runSleep()''), s)
          else
            (case dateNow s of
               (now, s1) \<Rightarrow>
                 (Inl DelayedError,
                  (log Info (''Sleeping for '' @ show_int duration @ ''ms. Token: ''
                             @ show_token (bullToken r)) NoData s1)
                  \<lparr>calls := calls s1 @ [MoveToDelayed (js_add now duration) (bullToken r)]\<rparr>))
      | _ \<Rightarrow> (Inl (Error ''Missing duration or type for #runSleep()''), s))"

text \<open>The sleep branch of \<open>StepRunner.execute\<close>.\<close>

definition execute_sleep ::
  "runner \<Rightarrow> string \<Rightarrow> step_state \<Rightarrow> 'w sys \<Rightarrow> (exn + execute_result) \<times> 'w sys" where
  "execute_sleep r i st s =
     (case setState i (st\<lparr>status := Completed, result := JNull\<rparr>) s of
        (Inl e, s1) \<Rightarrow> (Inl e, s1)
      | (Inr u, s1) \<Rightarrow>
          (Inr \<lparr>er_status = RunCompleted, er_result = JNull,
                er_state = StoredState (st\<lparr>status := Completed, result := JNull\<rparr>),
                er_sleep = True\<rparr>,
           s1\<lparr>calls := calls s1 @ [ChangePriority (getDelayedPriority r)]\<rparr>))"

text \<open>
  The step branch of \<open>StepRunner.execute\<close>: \<open>try\<close> the handler, record the outcome in
  the attempt and in the state, store the state, and report by status.
\<close>

definition execute_step ::
  "string \<Rightarrow> ('w \<Rightarrow> (jsval + jsval) \<times> 'w) \<Rightarrow> nat \<Rightarrow> step_state \<Rightarrow> 'w sys
   \<Rightarrow> (exn + execute_result) \<times> 'w sys" where
  "execute_step i handler att st s =
     (case (case handler (world s) of
              (Inr res, w) \<Rightarrow>
                (case dateNow (s\<lparr>world := w\<rparr>) of
                   (now, s1) \<Rightarrow>
                     (res, st\<lparr>status := Completed\<rparr>,
                      log Debug (''Step '' @ i @ '' finished'') NoData
                        (s1\<lparr>stepAttempts :=
                              modify_nth att (attempt_complete now) (stepAttempts s1)\<rparr>)))
            | (Inl e, w) \<Rightarrow>
                (JNull, st\<lparr>status := Failed, error := e\<rparr>,
                 (log Debug (''Step '' @ i @ '' has thrown an error.'') (Data e)
                    (s\<lparr>world := w\<rparr>))
                 \<lparr>stepAttempts := modify_nth att (attempt_fail e) (stepAttempts s)\<rparr>)) of
        (res, st1, s1) \<Rightarrow>
          (case setState i (st1\<lparr>result := res\<rparr>) s1 of
             (Inl e, s2) \<Rightarrow> (Inl e, s2)
           | (Inr u, s2) \<Rightarrow>
               (Inr \<lparr>er_status = (if status st1 \<noteq> Completed then RunFailed else RunCompleted),
                     er_result = res, er_state = StoredState (st1\<lparr>result := res\<rparr>),
                     er_sleep = False\<rparr>,
                s2)))"

text \<open>
  The same two branches when the state read back is an inherited member: the
  assignments to \<open>state\<close> land on the member, and \<open>setState\<close> throws, so neither
  \<open>changePriority\<close> nor the \<open>return\<close> is reached.
\<close>

definition execute_sleep_inherited ::
  "string \<Rightarrow> 'w sys \<Rightarrow> (exn + execute_result) \<times> 'w sys" where
  "execute_sleep_inherited i s =
     (case setState_inherited
             (write_member i ''result'' JNull
                (write_member i ''status'' (JStr ''completed'') s)) of
        (e, s1) \<Rightarrow> (Inl e, s1))"

definition execute_step_inherited ::
  "string \<Rightarrow> ('w \<Rightarrow> (jsval + jsval) \<times> 'w) \<Rightarrow> nat \<Rightarrow> 'w sys
   \<Rightarrow> (exn + execute_result) \<times> 'w sys" where
  "execute_step_inherited i handler att s =
     (case (case handler (world s) of
              (Inr res, w) \<Rightarrow>
                (case dateNow (s\<lparr>world := w\<rparr>) of
                   (now, s1) \<Rightarrow>
                     (res,
                      log Debug (''Step '' @ i @ '' finished'') NoData
                        (write_member i ''status'' (JStr ''completed'')
                           (s1\<lparr>stepAttempts :=
                                 modify_nth att (attempt_complete now) (stepAttempts s1)\<rparr>))))
            | (Inl e, w) \<Rightarrow>
                (JNull,
                 (write_member i ''error'' e
                    (write_member i ''status'' (JStr ''failed'')
                       (log Debug (''Step '' @ i @ '' has thrown an error.'') (Data e)
                          (s\<lparr>world := w\<rparr>))))
                 \<lparr>stepAttempts := modify_nth att (attempt_fail e) (stepAttempts s)\<rparr>)) of
        (res, s1) \<Rightarrow>
          (case setState_inherited (write_member i ''result'' res s1) of
             (e, s2) \<Rightarrow> (Inl e, s2)))"

text \<open>
  \<open>StepRunner.execute\<close> from \<open>//> Executing\<close> on: open the attempt, read the state
  back, branch on the step type.
\<close>

definition execute_body ::
  "runner \<Rightarrow> string \<Rightarrow> 'w alternatives \<Rightarrow> 'w sys \<Rightarrow> (exn + execute_result) \<times> 'w sys" where
  "execute_body r i opts s =
     (case stepAttempt i s of
        (att, s1) \<Rightarrow>
          (case getState i s1 of
             Inl e \<Rightarrow> (Inl e, s1)
           | Inr NoState \<Rightarrow> (Inl (Error (''Step '' @ i @ '' has no state'')), s1)
           | Inr (StoredState st) \<Rightarrow>
               (case opts of
                  SleepAlt d \<Rightarrow> execute_sleep r i st s1
                | StepAlt h \<Rightarrow> execute_step i h att st s1
                | _ \<Rightarrow> (Inl (Error (''Unknown step type '' @ type_name opts)), s1))
           | Inr (InheritedMember ps) \<Rightarrow>
               (case opts of
                  SleepAlt d \<Rightarrow> execute_sleep_inherited i s1
                | StepAlt h \<Rightarrow> execute_step_inherited i h att s1
                | _ \<Rightarrow> (Inl (Error (''Unknown step type '' @ type_name opts)), s1))))"

text \<open>\<open>StepRunner.execute\<close>.\<close>

definition execute ::
  "runner \<Rightarrow> string \<Rightarrow> 'w alternatives \<Rightarrow> 'w sys \<Rightarrow> (exn + execute_result) \<times> 'w sys" where
  "execute r i opts s =
     (case getState i s of
        Inl e \<Rightarrow> (Inl e, s)
      | Inr firstState \<Rightarrow>
          if \<not> canRun r
          then (Inl (Error (''Step '' @ i @ '' is not runnable'')),
                log Info (''Step '' @ i @ '' is not runnable'') NoData (registerStep i s))
          else
            (case firstState of
               StoredState fs \<Rightarrow>
                 if status fs = Completed
                 then (Inr \<lparr>er_status = NoRun, er_result = result fs, er_state = firstState,
                            er_sleep = False\<rparr>,
                       log Info (''Step '' @ i @ '' is already completed'') NoData
                         (registerStep i s))
                 else execute_body r i opts (registerStep i s)
             | InheritedMember ps \<Rightarrow>
                 if read_completed firstState
                 then (Inr \<lparr>er_status = NoRun, er_result = read_result firstState,
                            er_state = firstState, er_sleep = False\<rparr>,
                       log Info (''Step '' @ i @ '' is already completed'') NoData
                         (registerStep i s))
                 else execute_body r i opts (registerStep i s)
             | NoState \<Rightarrow>
                 (case setState i
                         \<lparr>slug = i, status = Pending, attempts = 0, data = JNull,
                          error = JNull, result = JUndefined\<rparr>
                         (log Info
                            (''First time running step '' @ i @ '', saving step to state'')
                            NoData (registerStep i s)) of
                    (Inl e, s1) \<Rightarrow> (Inl e, s1)
                  | (Inr u, s1) \<Rightarrow> execute_body r i opts s1)))"

section \<open>JobRunner.ts: JobRunner\<close>

record prepare_step_result =
  isCanRun :: bool
  isCompleted :: bool
  isExecutable :: bool
  prep_state :: state_read

text \<open>
  \<open>ExecuteStepResult\<close>. An absent \<open>cachedResult\<close> reads as \<open>undefined\<close>;
  \<open>executedResult\<close> is what \<open>execute().catch(e => e)\<close> gave: a result or the error.
\<close>

record execute_step_result =
  success :: bool
  ran :: bool
  step_prepared :: prepare_step_result
  cachedResult :: jsval
  executedResult :: "(exn + execute_result) option"

definition prepareStep :: "runner \<Rightarrow> string \<Rightarrow> 'w sys \<Rightarrow> exn + prepare_step_result" where
  "prepareStep r i s =
     bindE (getState i s) (\<lambda>st.
     Inr \<lparr>isCanRun = canRun r,
          isCompleted = read_completed st,
          isExecutable = (canRun r \<and> \<not> read_completed st),
          prep_state = st\<rparr>)"

text \<open>
  \<open>#executeStep\<close>. After \<open>catch(e => e)\<close> a caught error is tested like a result.
  Every error object the engine throws is truthy and has no \<open>status\<close> and no
  \<open>error\<close> member of its own, so what it inherits decides the first test; the second
  asks for an \<open>Error\<close> instance under \<open>error\<close>, which none of the values of the model
  is. A caught error that passes both is returned as the executed result.
\<close>

definition executeStep ::
  "runner \<Rightarrow> string \<Rightarrow> 'w alternatives \<Rightarrow> 'w sys \<Rightarrow> (exn + execute_step_result) \<times> 'w sys" where
  "executeStep r i opts s =
     (case prepareStep r i s of
        Inl e \<Rightarrow> (Inl e, s)
      | Inr prep \<Rightarrow>
          if \<not> isExecutable prep then
            (if read_completed (prep_state prep)
             then (Inr \<lparr>success = True, ran = False, step_prepared = prep,
                        cachedResult = coalesce (read_result (prep_state prep)) JNull,
                        executedResult = None\<rparr>,
                   log Info (''Step '' @ i @ '' is already completed'') NoData s)
             else (Inl (Error (''Step '' @ i @ '' is not runnable'')), s))
          else
            (case execute r i opts s of
               (Inr res, s1) \<Rightarrow>
                 if er_status res = RunFailed
                 then (Inl (Error (''Step '' @ i @ '' failed.'')),
                       log Debug (''Step '' @ i @ '' has thrown an error.'') (ResultData res) s1)
                 else (Inr \<lparr>success = True, ran = True, step_prepared = prep,
                            cachedResult = JUndefined, executedResult = Some (Inr res)\<rparr>, s1)
             | (Inl e, s1) \<Rightarrow>
                 if prototype_member ''status'' s1 = JStr ''failed''
                 then (Inl (Error (''Step '' @ i @ '' failed.'')),
                       log Debug (''Step '' @ i @ '' has thrown an error.'') (ErrorData e) s1)
                 else (Inr \<lparr>success = True, ran = True, step_prepared = prep,
                            cachedResult = JUndefined, executedResult = Some (Inl e)\<rparr>, s1)))"

text \<open>\<open>execution.executedResult?.result\<close>; a caught error has no result of its own.\<close>

definition executed_result_value :: "(exn + execute_result) option \<Rightarrow> 'w sys \<Rightarrow> jsval" where
  "executed_result_value x s =
     (case x of
        Some (Inr res) \<Rightarrow> er_result res
      | Some (Inl e) \<Rightarrow> prototype_member ''result'' s
      | None \<Rightarrow> JUndefined)"

text \<open>\<open>JobRunner.step\<close>.\<close>

definition step ::
  "runner \<Rightarrow> string \<Rightarrow> ('w \<Rightarrow> (jsval + jsval) \<times> 'w) \<Rightarrow> 'w sys \<Rightarrow> (exn + jsval) \<times> 'w sys" where
  "step r i handler s =
     (case executeStep r i (StepAlt handler) s of
        (Inl e, s1) \<Rightarrow> (Inl e, s1)
      | (Inr execution, s1) \<Rightarrow>
          if \<not> success execution
          then (Inl (Error (''Step '' @ i @ '' failed. Error: undefined'')), s1)
          else (Inr (coalesce (cachedResult execution)
                       (executed_result_value (executedResult execution) s1)), s1))"

text \<open>\<open>JobRunner.sleep\<close>.\<close>

definition sleep :: "runner \<Rightarrow> string \<Rightarrow> int \<Rightarrow> 'w sys \<Rightarrow> (exn + unit) \<times> 'w sys" where
  "sleep r i duration s =
     (case executeStep r i (SleepAlt duration) s of
        (Inl e, s1) \<Rightarrow> (Inl e, s1)
      | (Inr execution, s1) \<Rightarrow>
          if success execution \<and> ran execution then
            (case executedResult execution of
               Some (Inr res) \<Rightarrow>
                 if \<not> er_sleep res
                 then (Inl (Error (''Expected step '' @ i @ '' to have a sleep function.'')), s1)
                 else runSleep r (SleepAlt duration) s1
             | _ \<Rightarrow> (Inl (Error (''Expected step '' @ i @ '' to have a sleep function.'')), s1))
          else if success execution \<and> \<not> ran execution then (Inr (), s1)
          else (Inl (Error (''Sleep step '' @ i @ '' failed.'')), s1))"

section \<open>Dispatcher.ts: processJob\<close>

text \<open>
  The \<open>try\<close> block at the end of \<open>processJob\<close>: append the formatted attempts to the
  payload and update it; whatever is thrown inside is caught and printed.
\<close>

definition finalize :: "'w sys \<Rightarrow> 'w sys" where
  "finalize s =
     (case getParsedData s of
        Inl e \<Rightarrow> s
      | Inr d \<Rightarrow>
          (case formatAttempts s of
             (entries, s1) \<Rightarrow>
               (case format (jobAttempt s1) s1 of
                  ((entry, a1), s2) \<Rightarrow>
                    snd (updateData
                           (d\<lparr>step_attempts := step_attempts d @ entries,
                              job_attempts := job_attempts d @ [entry]\<rparr>)
                           (s2\<lparr>jobAttempt := a1\<rparr>)))))"

text \<open>
  \<open>ActionDispatcher.processJob\<close>. The workflow handler is user code over the whole
  invocation: it gets the runner (always with purpose \<open>execute\<close>) and the source data,
  calls the primitives above and returns or throws. It is awaited before the \<open>try\<close>
  block, so what it throws leaves \<open>processJob\<close> at once.
\<close>

definition processJob ::
  "priority_config option \<Rightarrow> (jsval \<Rightarrow> exn + jsval) \<Rightarrow> string option
   \<Rightarrow> (runner \<Rightarrow> jsval \<Rightarrow> 'w sys \<Rightarrow> (exn + jsval) \<times> 'w sys)
   \<Rightarrow> 'w sys \<Rightarrow> (exn + jsval) \<times> 'w sys" where
  "processJob cfg sch token handler s =
     (case prepare s of
        (Inl e, s1) \<Rightarrow> (Inl e, s1)
      | (Inr d, s1) \<Rightarrow>
          (case getSourceData \<lparr>purpose = Execute, bullToken = token, priority = cfg,
                                schema = sch\<rparr> (new_context s1) of
             Inl e \<Rightarrow> (Inl e, new_context s1)
           | Inr src \<Rightarrow>
               (case handler \<lparr>purpose = Execute, bullToken = token, priority = cfg,
                              schema = sch\<rparr> src (new_context s1) of
                  (Inl e, s2) \<Rightarrow> (Inl e, s2)
                | (Inr handlerResult, s2) \<Rightarrow> (Inr handlerResult, finalize s2))))"

text \<open>
  The backend's side of a redelivery (a retry, or the end of a delay): the worker gets
  the job with the payload the backend holds.
\<close>

definition redeliver :: "'w sys \<Rightarrow> 'w sys" where
  "redeliver s = s\<lparr>bull_data := stored s\<rparr>"

section \<open>execution/executor.ts\<close>

text \<open>
  The second engine of the repository. Of the execution directory only executor.ts is
  among the sources: the job state managers (job-state.ts), the execution context
  (ctx.ts) and its own active job (job.ts) are not, so what \<open>ActiveJobExecutor\<close> and
  \<open>StepExecutor\<close> call on them is modelled from the specification and marked so.
\<close>

text \<open>
  Modelled from the spec: the status of a step state (job-state.ts is missing). Section
  3: one of pending, active, delayed, completed, failed.
\<close>

datatype step_status = StepPending | StepActive | StepDelayed | StepCompleted | StepFailed

text \<open>
  Modelled from the spec: the step state the managers hold (job-state.ts is missing).
  Section 3: slug, status, attempts, data, result and error.
\<close>

record managed_step =
  ms_slug :: string
  ms_status :: step_status
  ms_attempts :: int
  ms_data :: jsval
  ms_result :: jsval
  ms_error :: jsval

text \<open>
  Modelled from the spec: the job state of \<open>JobStateManager\<close> (job-state.ts is
  missing), as far as executor.ts and its managers use it. Section 3: the step states
  by identifier and the job-level attempts; \<open>__logs\<close> is the member that \<open>wrapUp\<close> of
  executor.ts writes.
\<close>

record job_state =
  js_steps :: "(string \<times> managed_step) list"
  js_logs :: "log_entry list"
  js_attempts :: "attempt_status list"

text \<open>
  Modelled from the spec: what an invocation of the executor acts on. \<open>state_data\<close> is
  \<open>state.data\<close>, \<open>saved\<close> the job state last persisted, \<open>ctx_logs\<close> the buffer
  \<open>ctx.__logs\<close>, \<open>ctx_attempt\<close> the job attempt of the context (section 4.4),
  \<open>delay_requests\<close> the delays asked of the backend, \<open>user_world\<close> what user code
  acts on.
\<close>

record 'w executor =
  state_data :: job_state
  saved :: "job_state option"
  ctx_logs :: "log_entry list"
  ctx_attempt :: "attempt_status option"
  delay_requests :: "int list"
  user_world :: 'w

text \<open>
  Modelled from the spec: \<open>ExecutionContext.log\<close> (ctx.ts is missing). Section 4.4:
  a leveled logger whose entries are buffered in memory; executor.ts reads the buffer as
  \<open>ctx.__logs\<close>.
\<close>

definition ctx_log :: "log_level \<Rightarrow> string \<Rightarrow> log_data \<Rightarrow> 'w executor \<Rightarrow> 'w executor" where
  "ctx_log lv msg d x =
     x\<lparr>ctx_logs := ctx_logs x @ [\<lparr>level = lv, message = msg, log_data = d\<rparr>]\<rparr>"

text \<open>
  Modelled from the spec: \<open>JobStateManager.start\<close> (job-state.ts is missing). Section
  4.6, step 2: running begins the job attempt.
\<close>

definition state_start :: "'w executor \<Rightarrow> 'w executor" where
  "state_start x = x\<lparr>ctx_attempt := Some AttemptActive\<rparr>"

text \<open>
  Modelled from the spec: \<open>JobStateManager.complete\<close> (job-state.ts is missing).
  Section 4.6, step 3: on normal return the job attempt is completed.
\<close>

definition state_complete :: "'w executor \<Rightarrow> 'w executor" where
  "state_complete x = x\<lparr>ctx_attempt := Some AttemptCompleted\<rparr>"

text \<open>
  Modelled from the spec: \<open>JobStateManager.finish\<close> (job-state.ts is missing). Section
  4.6, step 6: finalization puts the job attempt record into the job state.
\<close>

definition state_finish :: "'w executor \<Rightarrow> 'w executor" where
  "state_finish x =
     (case ctx_attempt x of
        None \<Rightarrow> x
      | Some a \<Rightarrow>
          x\<lparr>state_data := (state_data x)\<lparr>js_attempts := js_attempts (state_data x) @ [a]\<rparr>\<rparr>)"

text \<open>
  Modelled from the spec: \<open>JobStateManager.updateData\<close> (job-state.ts is missing).
  Sections 4.1 and 4.6: it persists the full job state through the backend.
\<close>

definition state_updateData :: "'w executor \<Rightarrow> 'w executor" where
  "state_updateData x = x\<lparr>saved := Some (state_data x)\<rparr>"

text \<open>
  Modelled from the spec: \<open>JobStateManager.forStep\<close> and the \<open>data\<close> of the
  \<open>StepStateManager\<close> it returns (job-state.ts is missing). Section 4.2: the state of
  one step within the job state. executor.ts reads \<open>data.status\<close> before \<open>start()\<close>,
  so a step without a state has a pending one that is not yet in the job state.
\<close>

definition forStep :: "string \<Rightarrow> 'w executor \<Rightarrow> managed_step" where
  "forStep i x =
     (case map_of (js_steps (state_data x)) i of
        Some st \<Rightarrow> st
      | None \<Rightarrow> \<lparr>ms_slug = i, ms_status = StepPending, ms_attempts = 0, ms_data = JUndefined,
                 ms_result = JUndefined, ms_error = JUndefined\<rparr>)"

text \<open>
  Modelled from the spec: the write of a step's state into the job state (job-state.ts
  is missing). Section 5: the state of a slug is overwritten in place. An assignment to
  a member of a manager's \<open>data\<close>, and a call of the manager, end in it.
\<close>

definition put_step :: "string \<Rightarrow> managed_step \<Rightarrow> 'w executor \<Rightarrow> 'w executor" where
  "put_step i st x =
     x\<lparr>state_data := (state_data x)\<lparr>js_steps := AList.update i st (js_steps (state_data x))\<rparr>\<rparr>"

text \<open>
  Modelled from the spec: \<open>StepStateManager.start\<close> (job-state.ts is missing). Section
  4.2: it creates the state, pending then active, if absent, and leaves an existing
  state untouched.
\<close>

definition step_start :: "string \<Rightarrow> 'w executor \<Rightarrow> 'w executor" where
  "step_start i x =
     (case map_of (js_steps (state_data x)) i of
        Some st \<Rightarrow> x
      | None \<Rightarrow> put_step i ((forStep i x)\<lparr>ms_status := StepActive\<rparr>) x)"


text \<open>
  Modelled from the spec: \<open>ActiveJob.delay\<close> of execution/job.ts (missing). Section 4.5:
  it asks the backend to redeliver the job no earlier than the duration from now.
\<close>

definition job_delay :: "int \<Rightarrow> 'w executor \<Rightarrow> 'w executor" where
  "job_delay duration x = x\<lparr>delay_requests := delay_requests x @ [duration]\<rparr>"



text \<open>\<open>ActiveJobExecutor.wrapUp\<close>, from the source.\<close>

definition wrapUp :: "'w executor \<Rightarrow> 'w executor" where
  "wrapUp x =
     x\<lparr>state_data := (state_data x)\<lparr>js_logs := js_logs (state_data x) @ ctx_logs x\<rparr>\<rparr>"

text \<open>
  \<open>ActiveJobExecutor.execute\<close>, from the source: the \<open>try\<close> and \<open>catch\<close> blocks give
  the returned value, the \<open>finally\<close> block runs after either. The caught error's text,
  which the source appends to the message, is kept as the data of the log entry.
\<close>

definition executor_try ::
  "string \<Rightarrow> ('w executor \<Rightarrow> (exn + jsval) \<times> 'w executor) \<Rightarrow> 'w executor
   \<Rightarrow> jsval \<times> 'w executor" where
  "executor_try wid fn x =
     (case fn (state_start
                 (ctx_log Debug (''Started execution of workflow '' @ wid) NoData x)) of
        (Inr workflowResult, x1) \<Rightarrow>
          (workflowResult,
           ctx_log Debug (''Execution of workflow '' @ wid @ '' completed'') NoData
             (state_complete x1))
      | (Inl e, x1) \<Rightarrow>
          if e = DelayedError then (JUndefined, x1)
          else if e = UnrecoverableError then (JUndefined, x1)
          else (JUndefined,
                ctx_log LogError (''An error occurred for workflow '' @ wid) (ErrorData e) x1))"

definition executor_execute ::
  "string \<Rightarrow> ('w executor \<Rightarrow> (exn + jsval) \<times> 'w executor) \<Rightarrow> 'w executor
   \<Rightarrow> jsval \<times> 'w executor" where
  "executor_execute wid fn x =
     (case executor_try wid fn x of
        (r, x1) \<Rightarrow> (r, state_updateData (state_finish (wrapUp x1))))"


section \<open>Notions used in the statements\<close>

text \<open>
  A runtime in which the engine has not written on the prototype object itself, as is
  every worker process in which no step named \<open>__proto__\<close> has run. After such a
  write every object of the process inherits the members written, the payloads that
  zod validates too; what the engine does from then on is not followed here, and the
  general statements below are about runtimes that are intact.
\<close>

definition runtime_intact :: "'w sys \<Rightarrow> bool" where
  "runtime_intact s = (member_props ''__proto__'' s = [])"

text \<open>The step state the runner starts from: the stored one, or the pending one it creates.\<close>

definition base_state :: "string \<Rightarrow> job_data \<Rightarrow> step_state" where
  "base_state i d =
     (case map_of (state d) i of
        Some st \<Rightarrow> st
      | None \<Rightarrow> \<lparr>slug = i, status = Pending, attempts = 0, data = JNull, error = JNull,
                 result = JUndefined\<rparr>)"

text \<open>\<open>Object.keys\<close>.\<close>

fun obj_keys :: "jsval \<Rightarrow> string list" where
  "obj_keys (JObj kvs) = map fst kvs"
| "obj_keys v = []"

text \<open>
  A job as \<open>addJob\<close> enqueues it (\<open>#formatNewJobData\<close>: the parsed source, wrapped and
  marked prepared), delivered to a worker whose runner has no token and no priority
  configuration. The user's world is a counter of handler calls.
\<close>

definition example_data :: job_data where
  "example_data =
     \<lparr>source = JObj [(''videoUrl'', JStr ''https://example.org/v'')], prepared = True,
      state = [], job_attempts = [], step_attempts = []\<rparr>"

definition example_job :: "nat sys" where
  "example_job = delivered (encode_job example_data) 0"


definition example_runner :: runner where
  "example_runner = \<lparr>purpose = Execute, bullToken = None, priority = None, schema = Inr\<rparr>"

text \<open>A prepared payload with one step state whose status member is the given string.\<close>

definition step_payload :: "string \<Rightarrow> jsval" where
  "step_payload st =
     JObj [(''source'', JObj []), (''__prepared'', JBool True),
           (''__state'',
            JObj [(''s1'', JObj [(''slug'', JStr ''s1''), (''status'', JStr st),
                                (''attempts'', JNum 0)])])]"

text \<open>Step handlers for the examples: each call counts, and returns or throws.\<close>

definition returns :: "jsval \<Rightarrow> nat \<Rightarrow> (jsval + jsval) \<times> nat" where
  "returns v w = (Inr v, Suc w)"

definition throws :: "jsval \<Rightarrow> nat \<Rightarrow> (jsval + jsval) \<times> nat" where
  "throws v w = (Inl v, Suc w)"

text \<open>A job state of the executor with no steps, nothing logged and nothing saved.\<close>

definition example_executor :: "nat executor" where
  "example_executor =
     \<lparr>state_data = \<lparr>js_steps = [], js_logs = [], js_attempts = []\<rparr>, saved = None,
      ctx_logs = [], ctx_attempt = None, delay_requests = [], user_world = 0\<rparr>"

text \<open>
  Workflow functions for the examples. The first runs three steps in a row, as the
  workflow of the README does; the others run one step, sleep once, or only log.
\<close>

definition abc_workflow ::
  "('w \<Rightarrow> (jsval + jsval) \<times> 'w) \<Rightarrow> ('w \<Rightarrow> (jsval + jsval) \<times> 'w)
   \<Rightarrow> ('w \<Rightarrow> (jsval + jsval) \<times> 'w)
   \<Rightarrow> runner \<Rightarrow> jsval \<Rightarrow> 'w sys \<Rightarrow> (exn + jsval) \<times> 'w sys" where
  "abc_workflow hA hB hC r src s =
     (case step r ''A'' hA s of
        (Inl e, s1) \<Rightarrow> (Inl e, s1)
      | (Inr a, s1) \<Rightarrow>
          (case step r ''B'' hB s1 of
             (Inl e, s2) \<Rightarrow> (Inl e, s2)
           | (Inr b, s2) \<Rightarrow> step r ''C'' hC s2))"

definition charge_workflow ::
  "(nat \<Rightarrow> (jsval + jsval) \<times> nat) \<Rightarrow> runner \<Rightarrow> jsval \<Rightarrow> nat sys
   \<Rightarrow> (exn + jsval) \<times> nat sys" where
  "charge_workflow h r src s = step r ''charge'' h s"

definition sleeping_workflow :: "runner \<Rightarrow> jsval \<Rightarrow> nat sys \<Rightarrow> (exn + jsval) \<times> nat sys" where
  "sleeping_workflow r src s =
     (case sleep r ''wait'' 1000 s of
        (Inl e, s1) \<Rightarrow> (Inl e, s1)
      | (Inr u, s1) \<Rightarrow> (Inr JNull, s1))"

definition logging_workflow :: "runner \<Rightarrow> jsval \<Rightarrow> nat sys \<Rightarrow> (exn + jsval) \<times> nat sys" where
  "logging_workflow r src s = (Inr JNull, log Info ''hello'' NoData s)"


text \<open>The handler of step B in the replay example: it throws on call 1 and returns later.\<close>

definition flaky :: "nat \<Rightarrow> (jsval + jsval) \<times> nat" where
  "flaky w = (if w = 1 then (Inl (JStr ''boom''), Suc w) else (Inr (JNum 2), Suc w))"

text \<open>What the closing block of \<open>processJob\<close> stores: the payload with the attempts added.\<close>

definition finalized :: "job_data \<Rightarrow> 'w sys \<Rightarrow> job_data" where
  "finalized d s =
     d\<lparr>step_attempts := step_attempts d @ fst (formatAttempts s),
       job_attempts := job_attempts d
         @ [fst (fst (format (jobAttempt s) (snd (formatAttempts s))))]\<rparr>"

text \<open>A workflow function for the executor: it logs once through the context and returns.\<close>

definition executor_logging_workflow :: "nat executor \<Rightarrow> (exn + jsval) \<times> nat executor" where
  "executor_logging_workflow x = (Inr JNull, ctx_log Info ''hello'' NoData x)"

section \<open>Validation round trip\<close>

lemma bindE_Inr [simp]: "bindE (Inr x) f = f x"
  by (simp add: bindE_def)

lemma bindE_Inl [simp]: "bindE (Inl e) f = Inl e"
  by (simp add: bindE_def)

lemma parse_status_encode [simp]: "parse_status (encode_status st) = Inr st"
  by (cases st) simp_all

lemma encode_status_not_undefined [simp]: "encode_status st \<noteq> JUndefined"
  by (cases st) simp_all

lemma parse_attempt_type_encode [simp]:
  "parse_attempt_type (encode_attempt_type t) = Inr t"
  by (cases t) simp_all

lemma parse_attempt_status_encode [simp]:
  "parse_attempt_status (encode_attempt_status st) = Inr st"
  by (cases st) simp_all

lemma parse_nullish_number_encode [simp]:
  "parse_nullish_number (encode_nullish_number n) = Inr n"
  by (cases n) simp_all

lemma parse_step_state_encode [simp]: "parse_step_state (encode_step_state st) = Inr st"
  by (cases st) (simp add: parse_step_state_def encode_step_state_def with_default_def)

lemma parse_attempt_encode [simp]: "parse_attempt (encode_attempt a) = Inr a"
  by (cases a) (simp add: parse_attempt_def encode_attempt_def)

lemma parse_state_entries_encode [simp]:
  "parse_state_entries (map (\<lambda>(k, st). (k, encode_step_state st)) sts) = Inr sts"
  by (induction sts) auto

lemma parse_attempt_list_encode [simp]:
  "parse_attempt_list (map encode_attempt as) = Inr as"
  by (induction as) auto

lemma parse_encode_job [simp]: "parse (encode_job d) = Inr d"
  by (cases d) (simp add: parse_def encode_job_def with_default_def)

section \<open>The runner: reading and writing the payload\<close>

lemma getParsedData_simps [simp]:
  "getParsedData (s\<lparr>logs := l\<rparr>) = getParsedData s"
  "getParsedData (s\<lparr>steps := sts\<rparr>) = getParsedData s"
  "getParsedData (s\<lparr>ticks := t\<rparr>) = getParsedData s"
  "getParsedData (s\<lparr>world := w\<rparr>) = getParsedData s"
  "getParsedData (s\<lparr>stepAttempts := sa\<rparr>) = getParsedData s"
  "getParsedData (s\<lparr>jobAttempt := ja\<rparr>) = getParsedData s"
  "getParsedData (s\<lparr>calls := c\<rparr>) = getParsedData s"
  "getParsedData (s\<lparr>stored := v\<rparr>) = getParsedData s"
  "getParsedData (s\<lparr>member_writes := m\<rparr>) = getParsedData s"
  "getParsedData (s\<lparr>bull_data := encode_job p\<rparr>) = Inr p"
  by (simp_all add: getParsedData_def)

lemma getState_of:
  "getParsedData s = Inr d \<Longrightarrow> i \<notin> set object_prototype_members \<Longrightarrow>
   getState i s =
     Inr (case map_of (state d) i of Some st \<Rightarrow> StoredState st | None \<Rightarrow> NoState)"
  by (simp add: getState_def split: option.splits)

lemma getState_stored:
  "getParsedData s = Inr d \<Longrightarrow> map_of (state d) i = Some st \<Longrightarrow>
   getState i s = Inr (StoredState st)"
  by (simp add: getState_def)

lemma getState_redeliver:
  "stored s = encode_job d \<Longrightarrow> map_of (state d) i = Some st \<Longrightarrow>
   getState i (redeliver s) = Inr (StoredState st)"
  by (simp add: getState_def getParsedData_def redeliver_def)

lemma map_of_insert_index:
  "map_of kvs k = None \<Longrightarrow> map_of (insert_index k v kvs) = (map_of kvs)(k \<mapsto> v)"
  by (induction kvs) (auto simp: fun_upd_twist split: if_splits)

lemma map_of_assign [simp]: "map_of (assign k v kvs) = (map_of kvs)(k \<mapsto> v)"
  by (simp add: assign_def map_of_insert_index update_conv')

lemma update_insert_index:
  "map_of kvs k = None \<Longrightarrow> AList.update k v (insert_index k v' kvs) = insert_index k v kvs"
  by (induction kvs) (auto split: if_splits)

lemma assign_assign [simp]: "assign k v (assign k v' kvs) = assign k v kvs"
proof (cases "map_of kvs k = None \<and> is_array_index k")
  case True
  then have "assign k v' kvs = insert_index k v' kvs" "assign k v kvs = insert_index k v kvs"
    by (simp_all add: assign_def)
  moreover have "map_of (insert_index k v' kvs) k = Some v'"
    using True by (simp add: map_of_insert_index)
  ultimately show ?thesis
    using True by (simp add: assign_def update_insert_index)
next
  case False
  then have "assign k v' kvs = AList.update k v' kvs" "assign k v kvs = AList.update k v kvs"
    by (auto simp: assign_def)
  moreover have "map_of (AList.update k v' kvs) k = Some v'"
    by (simp add: update_conv')
  ultimately show ?thesis
    by (simp add: assign_def)
qed

lemma assign_new:
  "map_of kvs k = None \<Longrightarrow> \<not> is_array_index k \<Longrightarrow> assign k v kvs = kvs @ [(k, v)]"
  by (induction kvs) (auto simp: assign_def split: if_splits)

lemma not_array_index:
  "k \<noteq> [] \<Longrightarrow> \<not> is_digit (hd k) \<Longrightarrow> \<not> is_array_index k"
  by (cases k) (simp_all add: is_array_index_def)

lemma setState_of:
  "getParsedData s = Inr d \<Longrightarrow>
   setState i st s =
     (Inr (),
      s\<lparr>bull_data := encode_job (d\<lparr>state := assign i st (state d)\<rparr>),
        stored := encode_job (d\<lparr>state := assign i st (state d)\<rparr>),
        calls := calls s @
          [UpdateData (encode_job (d\<lparr>state := assign i st (state d)\<rparr>))]\<rparr>)"
  by (simp add: setState_def updateData_def)

lemma bit_length_le: "n < 2 ^ k \<Longrightarrow> bit_length n \<le> k"
proof (induction k arbitrary: n)
  case 0
  then show ?case by (simp add: bit_length.simps)
next
  case (Suc k)
  show ?case
  proof (cases "n \<le> 0")
    case True
    then show ?thesis by (simp add: bit_length.simps)
  next
    case False
    from Suc.prems have "n div 2 < 2 ^ k" by simp
    from Suc.IH [OF this] False show ?thesis
      by (subst bit_length.simps) simp
  qed
qed

lemma to_double_safe:
  assumes "\<bar>n\<bar> < 2 ^ 53"
  shows "to_double n = n"
proof -
  define m where "m = \<bar>n\<bar>"
  from assms have "m < 2 ^ 53" by (simp add: m_def)
  then have "bit_length m \<le> 53" by (rule bit_length_le)
  then have e: "bit_length m - 53 = 0" by simp
  have "to_double n = (if n < 0 then - m else m)"
    unfolding to_double_def m_def [symmetric] Let_def e by simp
  then show ?thesis by (simp add: m_def)
qed

lemma js_add_safe: "\<bar>a + b\<bar> < 2 ^ 53 \<Longrightarrow> js_add a b = a + b"
  by (simp add: js_add_def to_double_safe)

lemma coalesce_simps [simp]:
  "coalesce JUndefined v = v"
  "coalesce (coalesce v JNull) JUndefined = (if nullish v then JUndefined else v)"
  by (cases v; simp add: coalesce_def)+

lemma member_props_simps [simp]:
  "member_props i (s\<lparr>logs := l\<rparr>) = member_props i s"
  "member_props i (s\<lparr>steps := sts\<rparr>) = member_props i s"
  "member_props i (s\<lparr>ticks := t\<rparr>) = member_props i s"
  "member_props i (s\<lparr>world := w\<rparr>) = member_props i s"
  "member_props i (s\<lparr>stepAttempts := sa\<rparr>) = member_props i s"
  "member_props i (s\<lparr>jobAttempt := ja\<rparr>) = member_props i s"
  "member_props i (s\<lparr>calls := c\<rparr>) = member_props i s"
  "member_props i (s\<lparr>stored := v\<rparr>) = member_props i s"
  "member_props i (s\<lparr>bull_data := b\<rparr>) = member_props i s"
  by (simp_all add: member_props_def)

lemma prototype_member_intact [simp]:
  "prototype_member k (s\<lparr>logs := l\<rparr>) = prototype_member k s"
  "prototype_member k (s\<lparr>steps := sts\<rparr>) = prototype_member k s"
  "prototype_member k (s\<lparr>ticks := t\<rparr>) = prototype_member k s"
  "prototype_member k (s\<lparr>world := w\<rparr>) = prototype_member k s"
  "prototype_member k (s\<lparr>stepAttempts := sa\<rparr>) = prototype_member k s"
  "prototype_member k (s\<lparr>jobAttempt := ja\<rparr>) = prototype_member k s"
  "prototype_member k (s\<lparr>calls := c\<rparr>) = prototype_member k s"
  "prototype_member k (s\<lparr>stored := v\<rparr>) = prototype_member k s"
  "prototype_member k (s\<lparr>bull_data := b\<rparr>) = prototype_member k s"
  by (simp_all add: prototype_member_def)

lemmas runner_defs =
  execute_def execute_body_def execute_step_def execute_sleep_def canRun_def
  registerStep_def stepAttempt_def new_attempt_def dateNow_def log_def

lemmas api_defs = step_def sleep_def executeStep_def prepareStep_def executed_result_value_def






lemma example_job_parsed [simp]: "getParsedData example_job = Inr example_data"
  by (simp add: example_job_def delivered_def getParsedData_def)

section \<open>First-touch wrapping\<close>



section \<open>The status domain of the payload validation\<close>

lemma parse_status_Inr: "parse_status v = Inr st \<Longrightarrow> v = encode_status st"
  by (cases v) (auto split: if_splits)

lemma parse_step_state_status:
  assumes "parse_step_state v = Inr st"
  shows "field ''status'' v = JUndefined \<and> status st = Pending
         \<or> field ''status'' v = encode_status (status st)"
proof -
  from assms obtain kvs where v: "v = JObj kvs"
    by (cases v) (simp_all add: parse_step_state_def)
  from assms v obtain s where
    s: "with_default Pending parse_status (field ''status'' v) = Inr s" and st: "status st = s"
    by (auto simp: parse_step_state_def bindE_def split: sum.splits)
  show ?thesis
  proof (cases "field ''status'' v = JUndefined")
    case True
    with s st show ?thesis by (simp add: with_default_def)
  next
    case False
    with s have "parse_status (field ''status'' v) = Inr s" by (simp add: with_default_def)
    then show ?thesis using st by (simp add: parse_status_Inr)
  qed
qed

lemma parse_state_entries_member:
  "parse_state_entries kvs = Inr sts \<Longrightarrow> (k, v) \<in> set kvs \<Longrightarrow>
   \<exists>st. parse_step_state v = Inr st"
  by (induction kvs arbitrary: sts) (auto simp: bindE_def split: sum.splits)

lemma parse_state_of_payload:
  assumes "parse d = Inr p" and "field ''__state'' d = JObj kvs"
  shows "parse_state_entries kvs = Inr (state p)"
proof -
  from assms(1) obtain es where d: "d = JObj es"
    by (cases d) (simp_all add: parse_def)
  from assms d show ?thesis
    by (auto simp: parse_def bindE_def with_default_def split: sum.splits)
qed

lemma leaf_parsers_ZodError:
  "parse_status v = Inl e \<Longrightarrow> e = ZodError"
  "parse_string v = Inl e \<Longrightarrow> e = ZodError"
  "parse_number v = Inl e \<Longrightarrow> e = ZodError"
  "parse_boolean v = Inl e \<Longrightarrow> e = ZodError"
  "parse_nullish_number v = Inl e \<Longrightarrow> e = ZodError"
  "parse_attempt_type v = Inl e \<Longrightarrow> e = ZodError"
  "parse_attempt_status v = Inl e \<Longrightarrow> e = ZodError"
  by (cases v; auto split: if_splits)+

lemma with_default_ZodError:
  "with_default Pending parse_status v = Inl e \<Longrightarrow> e = ZodError"
  "with_default n parse_number v = Inl e \<Longrightarrow> e = ZodError"
  "with_default b parse_boolean v = Inl e \<Longrightarrow> e = ZodError"
  by (auto simp: with_default_def split: if_splits dest: leaf_parsers_ZodError)

lemma parse_step_state_ZodError: "parse_step_state v = Inl e \<Longrightarrow> e = ZodError"
  by (cases v)
     (auto simp: parse_step_state_def bindE_def split: sum.splits
           dest: leaf_parsers_ZodError with_default_ZodError)

lemma parse_attempt_ZodError: "parse_attempt v = Inl e \<Longrightarrow> e = ZodError"
  by (cases v)
     (auto simp: parse_attempt_def bindE_def split: sum.splits dest: leaf_parsers_ZodError)

lemma parse_state_entries_ZodError: "parse_state_entries kvs = Inl e \<Longrightarrow> e = ZodError"
  by (induction kvs) (auto simp: bindE_def split: sum.splits dest: parse_step_state_ZodError)

lemma parse_attempt_list_ZodError: "parse_attempt_list vs = Inl e \<Longrightarrow> e = ZodError"
  by (induction vs) (auto simp: bindE_def split: sum.splits dest: parse_attempt_ZodError)

lemma with_default_list_ZodError:
  "with_default [] parse_state_record v = Inl e \<Longrightarrow> e = ZodError"
  "with_default [] parse_attempt_array v = Inl e \<Longrightarrow> e = ZodError"
  by (cases v; auto simp: with_default_def split: if_splits
        dest: parse_state_entries_ZodError parse_attempt_list_ZodError)+

lemma parse_ZodError: "parse d = Inl e \<Longrightarrow> e = ZodError"
  by (cases d)
     (auto simp: parse_def bindE_def split: sum.splits
           dest: with_default_ZodError with_default_list_ZodError)

text \<open>
  C5 (amended). Every step state that the payload validation of Job.ts accepts has a
  status member among pending, active, completed and failed, or none (then the status
  is pending). A payload with a step state whose status is delayed is rejected with a
  validation error, so such a state does not survive validation. Every accepted payload
  validates again to itself, and what \<open>updateData\<close> stores is a payload that has
  passed the validation.
\<close>

theorem step_status_domain:
  "(parse d = Inr p \<and> field ''__state'' d = JObj kvs \<and> (k, v) \<in> set kvs \<longrightarrow>
      field ''status'' v \<in>
        {JUndefined, JStr ''pending'', JStr ''active'', JStr ''completed'', JStr ''failed''})
   \<and> (field ''__state'' d = JObj kvs \<and> (k, v) \<in> set kvs \<and> field ''status'' v = JStr ''delayed''
        \<longrightarrow> parse d = Inl ZodError)
   \<and> (parse d = Inr p \<longrightarrow> parse (encode_job p) = Inr p)
   \<and> (updateData input s = (Inr u, s') \<longrightarrow>
        stored s' = encode_job input \<and> parse (stored s') = Inr input)"
proof -
  have a: "field ''status'' v \<in>
        {JUndefined, JStr ''pending'', JStr ''active'', JStr ''completed'', JStr ''failed''}"
    if "parse d = Inr q" "field ''__state'' d = JObj kvs" "(k, v) \<in> set kvs" for q
  proof -
    from that obtain st where st: "parse_step_state v = Inr st"
      using parse_state_of_payload parse_state_entries_member by blast
    from parse_step_state_status [OF st] show ?thesis
      by (cases "status st") auto
  qed
  have b: "parse d = Inl ZodError"
    if "field ''__state'' d = JObj kvs" "(k, v) \<in> set kvs" "field ''status'' v = JStr ''delayed''"
  proof (cases "parse d")
    case (Inl e)
    then show ?thesis using parse_ZodError by blast
  next
    case (Inr q)
    from a [OF Inr that(1,2)] that(3) show ?thesis by simp
  qed
  have c: "stored s' = encode_job input \<and> parse (stored s') = Inr input"
    if "updateData input s = (Inr u, s')"
    using that by (auto simp: updateData_def)
  show ?thesis using a b c by simp
qed

text \<open>
  C5 as stated fails: a step state with status delayed is not accepted by the payload
  validation, while the same payload with status completed is.
\<close>

theorem delayed_status_rejected:
  "parse (step_payload ''delayed'') = Inl ZodError
   \<and> parse (step_payload ''completed'') =
       Inr \<lparr>source = JObj [], prepared = True,
            state = [(''s1'', \<lparr>slug = ''s1'', status = Completed, attempts = 0,
                               data = JUndefined, error = JUndefined,
                               result = JUndefined\<rparr>)],
            job_attempts = [], step_attempts = []\<rparr>"
  by (simp add: step_payload_def parse_def with_default_def parse_step_state_def)

theorem step_status_domain_witness:
  "parse (encode_job (example_data\<lparr>state := [(''s1'', base_state ''s1'' example_data)]\<rparr>))
     = Inr (example_data\<lparr>state := [(''s1'', base_state ''s1'' example_data)]\<rparr>)
   \<and> field ''status'' (encode_step_state (base_state ''s1'' example_data)) = JStr ''pending''
   \<and> parse (step_payload ''delayed'') = Inl ZodError
   \<and> parse (stored (snd (updateData example_data example_job))) = Inr example_data"
proof -
  let ?p = "example_data\<lparr>state := [(''s1'', base_state ''s1'' example_data)]\<rparr>"
  let ?v = "encode_step_state (base_state ''s1'' example_data)"
  let ?w = "JObj [(''slug'', JStr ''s1''), (''status'', JStr ''delayed''), (''attempts'', JNum 0)]"
  have "field ''__state'' (encode_job ?p) = JObj [(''s1'', ?v)]"
    by (simp add: encode_job_def)
  then have h1: "parse (encode_job ?p) = Inr ?p
      \<and> field ''__state'' (encode_job ?p) = JObj [(''s1'', ?v)]
      \<and> (''s1'', ?v) \<in> set [(''s1'', ?v)]"
    by simp
  have h2: "field ''__state'' (step_payload ''delayed'') = JObj [(''s1'', ?w)]
      \<and> (''s1'', ?w) \<in> set [(''s1'', ?w)]
      \<and> field ''status'' ?w = JStr ''delayed''"
    by (simp add: step_payload_def)
  have h3: "updateData example_data example_job =
      (Inr (), snd (updateData example_data example_job))"
    by (simp add: updateData_def)
  from step_status_domain [of "encode_job ?p" ?p "[(''s1'', ?v)]" "''s1''" ?v] h1
  have "field ''status'' ?v \<in>
        {JUndefined, JStr ''pending'', JStr ''active'', JStr ''completed'', JStr ''failed''}"
    by blast
  moreover
  from step_status_domain [of "step_payload ''delayed''" example_data "[(''s1'', ?w)]" "''s1''" ?w] h2
  have "parse (step_payload ''delayed'') = Inl ZodError" by blast
  moreover
  from step_status_domain [where input = example_data and s = example_job and u = "()"
      and s' = "snd (updateData example_data example_job)"] h3
  have "parse (stored (snd (updateData example_data example_job))) = Inr example_data"
    by blast
  ultimately show ?thesis
    by (simp add: base_state_def example_data_def encode_step_state_def)
qed

section \<open>Plain steps\<close>

lemma step_cached:
  assumes "purpose r = Execute" and "getState i s = Inr (StoredState st)"
    and "status st = Completed"
  shows "step r i handler s =
           (Inr (if nullish (result st) then JUndefined else result st),
            log Info (''Step '' @ i @ '' is already completed'') NoData s)"
  using assms by (simp add: api_defs canRun_def)

lemma step_returns:
  assumes "purpose r = Execute" and "getParsedData s = Inr d"
    and "i \<notin> set object_prototype_members"
    and "\<forall>st. map_of (state d) i = Some st \<longrightarrow> status st \<noteq> Completed"
    and "handler (world s) = (Inr res, w)"
  shows "fst (step r i handler s) = Inr res"
    and "getParsedData (snd (step r i handler s)) =
           Inr (d\<lparr>state := assign i
                  ((base_state i d)\<lparr>status := Completed, result := res\<rparr>) (state d)\<rparr>)"
    and "stored (snd (step r i handler s)) =
           encode_job (d\<lparr>state := assign i
                  ((base_state i d)\<lparr>status := Completed, result := res\<rparr>) (state d)\<rparr>)"
    and "bull_data (snd (step r i handler s)) = stored (snd (step r i handler s))"
    and "last (calls (snd (step r i handler s))) = UpdateData (stored (snd (step r i handler s)))"
    and "world (snd (step r i handler s)) = w"
    and "member_writes (snd (step r i handler s)) = member_writes s"
  using assms
  by (cases "map_of (state d) i";
      simp add: api_defs runner_defs getState_of setState_of base_state_def)+

lemma step_throws:
  assumes "purpose r = Execute" and "getParsedData s = Inr d"
    and "i \<notin> set object_prototype_members"
    and "\<forall>st. map_of (state d) i = Some st \<longrightarrow> status st \<noteq> Completed"
    and "handler (world s) = (Inl e, w)"
  shows "fst (step r i handler s) = Inl (Error (''Step '' @ i @ '' failed.''))"
    and "getParsedData (snd (step r i handler s)) =
           Inr (d\<lparr>state := assign i
                  ((base_state i d)\<lparr>status := Failed, error := e, result := JNull\<rparr>)
                  (state d)\<rparr>)"
    and "stored (snd (step r i handler s)) =
           encode_job (d\<lparr>state := assign i
                  ((base_state i d)\<lparr>status := Failed, error := e, result := JNull\<rparr>)
                  (state d)\<rparr>)"
    and "bull_data (snd (step r i handler s)) = stored (snd (step r i handler s))"
    and "last (calls (snd (step r i handler s))) = UpdateData (stored (snd (step r i handler s)))"
    and "world (snd (step r i handler s)) = w"
    and "member_writes (snd (step r i handler s)) = member_writes s"
  using assms
  by (cases "map_of (state d) i";
      simp add: api_defs runner_defs getState_of setState_of base_state_def)+

lemma example_runner_purpose [simp]: "purpose example_runner = Execute"
  by (simp add: example_runner_def)

lemma example_data_state [simp]: "state example_data = []"
  by (simp add: example_data_def)

lemma example_job_fields [simp]:
  "bull_data example_job = encode_job example_data"
  "stored example_job = encode_job example_data"
  "calls example_job = []"
  "ticks example_job = 0"
  "timeline example_job = (\<lambda>n. int n)"
  "logs example_job = []"
  "stepAttempts example_job = []"
  "steps example_job = []"
  "world example_job = 0"
  "member_writes example_job = []"
  by (simp_all add: example_job_def delivered_def)

lemma example_names [simp]:
  "''find'' \<notin> set object_prototype_members"
  "''download'' \<notin> set object_prototype_members"
  "''charge'' \<notin> set object_prototype_members"
  "''wait'' \<notin> set object_prototype_members"
  "''nap'' \<notin> set object_prototype_members"
  "''s1'' \<notin> set object_prototype_members"
  "''A'' \<notin> set object_prototype_members"
  "''B'' \<notin> set object_prototype_members"
  "''C'' \<notin> set object_prototype_members"
  "\<not> is_array_index ''find''"
  "\<not> is_array_index ''download''"
  "\<not> is_array_index ''charge''"
  "\<not> is_array_index ''wait''"
  "\<not> is_array_index ''nap''"
  "\<not> is_array_index ''s1''"
  "\<not> is_array_index ''A''"
  "\<not> is_array_index ''B''"
  "\<not> is_array_index ''C''"
  by (simp_all add: object_prototype_members_def is_array_index_def is_digit_def)

text \<open>
  Memoization of completed steps. With purpose execute, a step call whose stored state
  has status completed returns the cached result, where a cached \<open>null\<close> comes back
  as \<open>undefined\<close>. The handler is not called: the returned value and the state after
  the call are the same for every handler, the user's world is untouched, and the only
  effect is one log entry (no backend call, no change of the payload).
\<close>

lemma step_completed_cached:
  assumes "purpose r = Execute" and "getState i s = Inr (StoredState st)"
    and "status st = Completed"
  shows "step r i handler s =
           (Inr (if nullish (result st) then JUndefined else result st),
            log Info (''Step '' @ i @ '' is already completed'') NoData s)
         \<and> step r i handler s = step r i other_handler s
         \<and> world (snd (step r i handler s)) = world s
         \<and> calls (snd (step r i handler s)) = calls s
         \<and> bull_data (snd (step r i handler s)) = bull_data s
         \<and> stored (snd (step r i handler s)) = stored s"
  by (simp add: step_cached [OF assms] log_def)

lemma step_completed_cached_example:
  "getState ''download'' (snd (step example_runner ''download'' (returns (JNum 7)) example_job))
     = Inr (StoredState \<lparr>slug = ''download'', status = Completed, attempts = 0, data = JNull,
                         error = JNull, result = JNum 7\<rparr>)
   \<and> step example_runner ''download'' (returns (JNum 8))
       (snd (step example_runner ''download'' (returns (JNum 7)) example_job))
     = (Inr (JNum 7),
        log Info ''Step download is already completed'' NoData
          (snd (step example_runner ''download'' (returns (JNum 7)) example_job)))
   \<and> world (snd (step example_runner ''download'' (returns (JNum 8))
       (snd (step example_runner ''download'' (returns (JNum 7)) example_job)))) = 1"
proof -
  let ?s = "snd (step example_runner ''download'' (returns (JNum 7)) example_job)"
  let ?st = "\<lparr>slug = ''download'', status = Completed, attempts = 0, data = JNull,
              error = JNull, result = JNum 7\<rparr>"
  have r: "returns (JNum 7) (world example_job) = (Inr (JNum 7), 1)"
    by (simp add: returns_def example_job_def delivered_def)
  have "getParsedData ?s = Inr (example_data\<lparr>state := [(''download'', ?st)]\<rparr>)"
    using step_returns(2) [where handler = "returns (JNum 7)" and s = example_job
        and r = example_runner and i = "''download''" and d = example_data] r
    by (simp add: base_state_def assign_new)
  then have g: "getState ''download'' ?s = Inr (StoredState ?st)"
    by (simp add: getState_stored)
  have w: "world ?s = 1"
    using step_returns(6) [where handler = "returns (JNum 7)" and s = example_job
        and r = example_runner and i = "''download''" and d = example_data] r
    by simp
  from step_completed_cached [of example_runner "''download''" ?s ?st "returns (JNum 8)"] g w
  show ?thesis by (simp add: log_def)
qed

text \<open>
  C1, where the code departs from it. On a job fresh from \<open>addJob\<close>, the first call
  of a step whose handler returns \<open>null\<close> returns \<open>null\<close> and stores the state
  with status completed and result \<open>null\<close>; the next call of the same step returns
  \<open>undefined\<close>, not the cached \<open>null\<close>. For every other cached result the call
  returns it, as the lemma above says.
\<close>

theorem step_replay_null_result:
  "fst (step example_runner ''find'' (returns JNull) example_job) = Inr JNull
   \<and> getState ''find'' (snd (step example_runner ''find'' (returns JNull) example_job))
     = Inr (StoredState \<lparr>slug = ''find'', status = Completed, attempts = 0, data = JNull,
                         error = JNull, result = JNull\<rparr>)
   \<and> fst (step example_runner ''find'' (returns JNull)
            (snd (step example_runner ''find'' (returns JNull) example_job)))
     = Inr JUndefined"
proof -
  let ?s = "snd (step example_runner ''find'' (returns JNull) example_job)"
  let ?st = "\<lparr>slug = ''find'', status = Completed, attempts = 0, data = JNull,
              error = JNull, result = JNull\<rparr>"
  have r: "returns JNull (world example_job) = (Inr JNull, 1)"
    by (simp add: returns_def example_job_def delivered_def)
  have a: "fst (step example_runner ''find'' (returns JNull) example_job) = Inr JNull"
    using step_returns(1) [where handler = "returns JNull" and s = example_job
        and r = example_runner and i = "''find''" and d = example_data] r
    by simp
  have "getParsedData ?s = Inr (example_data\<lparr>state := [(''find'', ?st)]\<rparr>)"
    using step_returns(2) [where handler = "returns JNull" and s = example_job
        and r = example_runner and i = "''find''" and d = example_data] r
    by (simp add: base_state_def assign_new)
  then have g: "getState ''find'' ?s = Inr (StoredState ?st)"
    by (simp add: getState_stored)
  have "fst (step example_runner ''find'' (returns JNull) ?s) = Inr JUndefined"
    by (simp add: step_cached [OF _ g])
  with a g show ?thesis by simp
qed

section \<open>Per-step persistence\<close>

text \<open>
  Persistence of a step's outcome, for a step whose identifier names no member of
  \<open>Object.prototype\<close> (in a runtime that is intact, on a payload with no step state
  under \<open>__proto__\<close>). With purpose execute, when the handler of such a step that is
  not yet completed finishes, by returning or by throwing, the state the call leaves
  behind holds the step's updated state in the payload: the payload the backend stores
  is the job data with that step state put in, the job's own data is the same payload,
  the last backend call is the update with it, and a redelivered job reads the step
  state back. This is the state in which \<open>step\<close> returns to the workflow function,
  before any finalization.
\<close>

lemma step_outcome_persisted:
  assumes "purpose r = Execute" and "runtime_intact s" and "getParsedData s = Inr d"
    and "i \<notin> set object_prototype_members"
    and "\<forall>st. map_of (state d) i = Some st \<longrightarrow> status st \<noteq> Completed"
    and "map_of (state d) ''__proto__'' = None"
    and "handler (world s) = (out, w)"
    and "st' = (case out of
                  Inr res \<Rightarrow> (base_state i d)\<lparr>status := Completed, result := res\<rparr>
                | Inl e \<Rightarrow> (base_state i d)\<lparr>status := Failed, error := e, result := JNull\<rparr>)"
  shows "stored (snd (step r i handler s)) =
           encode_job (d\<lparr>state := assign i st' (state d)\<rparr>)
         \<and> bull_data (snd (step r i handler s)) = stored (snd (step r i handler s))
         \<and> last (calls (snd (step r i handler s))) =
             UpdateData (stored (snd (step r i handler s)))
         \<and> getState i (redeliver (snd (step r i handler s))) = Inr (StoredState st')
         \<and> world (snd (step r i handler s)) = w"
proof (cases out)
  case (Inl e)
  with assms(7) have h: "handler (world s) = (Inl e, w)" by simp
  note T = step_throws [where handler = handler and s = s and e = e,
      OF assms(1) assms(3) assms(4) assms(5) h]
  from Inl assms(8) T(3) have "getState i (redeliver (snd (step r i handler s))) =
      Inr (StoredState st')"
    by (intro getState_redeliver [where d = "d\<lparr>state := assign i st' (state d)\<rparr>"]) simp_all
  with Inl assms(8) T(3-6) show ?thesis by simp
next
  case (Inr res)
  with assms(7) have h: "handler (world s) = (Inr res, w)" by simp
  note T = step_returns [where handler = handler and s = s and res = res,
      OF assms(1) assms(3) assms(4) assms(5) h]
  from Inr assms(8) T(3) have "getState i (redeliver (snd (step r i handler s))) =
      Inr (StoredState st')"
    by (intro getState_redeliver [where d = "d\<lparr>state := assign i st' (state d)\<rparr>"]) simp_all
  with Inr assms(8) T(3-6) show ?thesis by simp
qed

lemma step_outcome_persisted_example:
  "stored (snd (step example_runner ''charge'' (throws (JStr ''declined'')) example_job)) =
     encode_job (example_data\<lparr>state :=
       [(''charge'', \<lparr>slug = ''charge'', status = Failed, attempts = 0, data = JNull,
                      error = JStr ''declined'', result = JNull\<rparr>)]\<rparr>)
   \<and> last (calls (snd (step example_runner ''charge'' (throws (JStr ''declined'')) example_job)))
     = UpdateData
         (stored (snd (step example_runner ''charge'' (throws (JStr ''declined'')) example_job)))
   \<and> getState ''charge''
       (redeliver (snd (step example_runner ''charge'' (throws (JStr ''declined'')) example_job)))
     = Inr (StoredState \<lparr>slug = ''charge'', status = Failed, attempts = 0, data = JNull,
                         error = JStr ''declined'', result = JNull\<rparr>)"
proof -
  have h: "throws (JStr ''declined'') (world example_job) = (Inl (JStr ''declined''), 1)"
    by (simp add: throws_def example_job_def delivered_def)
  have n: "\<forall>st. map_of (state example_data) ''charge'' = Some st \<longrightarrow> status st \<noteq> Completed"
    by simp
  have i: "runtime_intact example_job"
    by (simp add: runtime_intact_def member_props_def)
  from step_outcome_persisted [where handler = "throws (JStr ''declined'')"
      and s = example_job and out = "Inl (JStr ''declined'')",
      OF example_runner_purpose i example_job_parsed example_names(3) n _ h refl]
  show ?thesis by (simp add: base_state_def assign_new)
qed

section \<open>Step identifiers that name a member of Object.prototype\<close>

lemma setState_inherited_of: "setState_inherited s = (ZodError, s)"
  by (cases "getParsedData s")
     (auto simp: setState_inherited_def getParsedData_def dest: parse_ZodError)

lemma example_job_intact [simp]: "runtime_intact example_job"
  by (simp add: runtime_intact_def member_props_def)

lemmas inherited_defs =
  getState_def object_prototype_members_def member_props_def write_member_def
  prototype_member_def execute_step_inherited_def execute_sleep_inherited_def
  setState_inherited_of modify_nth.simps attempt_complete_def attempt_fail_def

lemma write_member_fields [simp]:
  "calls (write_member i k v s) = calls s"
  "stored (write_member i k v s) = stored s"
  "bull_data (write_member i k v s) = bull_data s"
  "world (write_member i k v s) = world s"
  "logs (write_member i k v s) = logs s"
  "stepAttempts (write_member i k v s) = stepAttempts s"
  "ticks (write_member i k v s) = ticks s"
  "getParsedData (write_member i k v s) = getParsedData s"
  by (simp_all add: write_member_def getParsedData_def)

lemma member_props_write_member:
  "member_props j (write_member i k v s) =
     (if j = i then AList.update k v (member_props i s) else member_props j s)"
  by (simp add: member_props_def write_member_def update_conv')

lemma getState_inherited:
  "getParsedData s = Inr d \<Longrightarrow> map_of (state d) i = None \<Longrightarrow>
   i \<in> set object_prototype_members \<Longrightarrow>
   getState i s = Inr (InheritedMember (member_props i s))"
  by (simp add: getState_def)

text \<open>
  A step or a sleep whose identifier names a member of \<open>Object.prototype\<close>, has no
  state of its own in the payload, and is not marked completed on the member. With
  purpose execute the handler of the step runs, and when the call is over the backend
  has been asked for nothing and the payloads are as they were. In a runtime that is
  intact, \<open>step\<close> returns \<open>undefined\<close> whatever the handler did (for a name other
  than \<open>__proto__\<close>), and \<open>sleep\<close> throws that the step has no sleep function.
\<close>

lemma step_inherited_name:
  assumes "purpose r = Execute" and "getParsedData s = Inr d"
    and "map_of (state d) i = None" and "i \<in> set object_prototype_members"
    and "field ''status'' (JObj (member_props i s)) \<noteq> JStr ''completed''"
    and "handler (world s) = (out, w)"
  shows "calls (snd (step r i handler s)) = calls s"
    and "stored (snd (step r i handler s)) = stored s"
    and "bull_data (snd (step r i handler s)) = bull_data s"
    and "world (snd (step r i handler s)) = w"
  using assms
  by (cases out;
      simp add: api_defs runner_defs getState_inherited execute_step_inherited_def
        setState_inherited_of split: if_splits)+

lemma step_inherited_function:
  assumes "purpose r = Execute" and "runtime_intact s" and "getParsedData s = Inr d"
    and "map_of (state d) i = None" and "i \<in> set object_prototype_members"
    and "i \<noteq> ''__proto__''"
    and "field ''status'' (JObj (member_props i s)) \<noteq> JStr ''completed''"
  shows "fst (step r i handler s) = Inr JUndefined"
  using assms
  by (cases "handler (world s)"; cases "fst (handler (world s))";
      simp add: api_defs runner_defs getState_inherited execute_step_inherited_def
        setState_inherited_of prototype_member_def member_props_write_member
        runtime_intact_def split: if_splits)

lemma sleep_inherited_name:
  assumes "purpose r = Execute" and "runtime_intact s" and "getParsedData s = Inr d"
    and "map_of (state d) i = None" and "i \<in> set object_prototype_members"
    and "field ''status'' (JObj (member_props i s)) \<noteq> JStr ''completed''"
  shows "calls (snd (sleep r i duration s)) = calls s"
    and "stored (snd (sleep r i duration s)) = stored s"
    and "fst (sleep r i duration s) =
           Inl (Error (''Expected step '' @ i @ '' to have a sleep function.''))"
  using assms
  by (simp_all add: api_defs runner_defs getState_inherited execute_sleep_inherited_def
        setState_inherited_of prototype_member_def member_props_write_member update_conv'
        runtime_intact_def split: if_splits)

text \<open>
  C8, where the code departs from it. On a job fresh from \<open>addJob\<close>, a step named
  \<open>constructor\<close> runs its handler, and when the handler has finished, \<open>step\<close>
  returns \<open>undefined\<close> to the workflow function with nothing persisted: no backend
  call has been made, and the stored payload and the job's data are as they were, with
  no step state. The same when the handler throws: \<open>step\<close> returns \<open>undefined\<close>
  and does not throw. The outcome is written on the function that \<open>constructor\<close>
  names, and the validation of \<open>setState\<close> throws on it.
\<close>

theorem step_named_constructor_not_persisted:
  "fst (step example_runner ''constructor'' (returns (JNum 7)) example_job) = Inr JUndefined
   \<and> world (snd (step example_runner ''constructor'' (returns (JNum 7)) example_job)) = 1
   \<and> calls (snd (step example_runner ''constructor'' (returns (JNum 7)) example_job)) = []
   \<and> stored (snd (step example_runner ''constructor'' (returns (JNum 7)) example_job))
       = encode_job example_data
   \<and> bull_data (snd (step example_runner ''constructor'' (returns (JNum 7)) example_job))
       = encode_job example_data
   \<and> member_writes (snd (step example_runner ''constructor'' (returns (JNum 7)) example_job))
       = [(''constructor'', [(''status'', JStr ''completed''), (''result'', JNum 7)])]
   \<and> fst (step example_runner ''constructor'' (throws (JStr ''declined'')) example_job)
       = Inr JUndefined
   \<and> world (snd (step example_runner ''constructor'' (throws (JStr ''declined''))
                    example_job)) = 1
   \<and> calls (snd (step example_runner ''constructor'' (throws (JStr ''declined''))
                    example_job)) = []
   \<and> stored (snd (step example_runner ''constructor'' (throws (JStr ''declined''))
                     example_job)) = encode_job example_data"
  by (simp add: api_defs runner_defs inherited_defs returns_def throws_def)

section \<open>Sleep steps of the runner\<close>

lemma sleep_first_pass:
  assumes "purpose r = Execute" and "getParsedData s = Inr d"
    and "i \<notin> set object_prototype_members"
    and "\<forall>st. map_of (state d) i = Some st \<longrightarrow> status st \<noteq> Completed"
  shows "fst (sleep r i duration s) =
           (if duration = 0 then Inl (Error ''Missing duration or type for #runSleep()'')
            else Inl DelayedError)"
    and "stored (snd (sleep r i duration s)) =
           encode_job (d\<lparr>state := assign i
                  ((base_state i d)\<lparr>status := Completed, result := JNull\<rparr>) (state d)\<rparr>)"
    and "bull_data (snd (sleep r i duration s)) = stored (snd (sleep r i duration s))"
    and "calls (snd (sleep r i duration s)) =
           calls s
           @ (if map_of (state d) i = None
              then [UpdateData (encode_job (d\<lparr>state :=
                      assign i (base_state i d) (state d)\<rparr>))]
              else [])
           @ [UpdateData (stored (snd (sleep r i duration s))),
              ChangePriority (getDelayedPriority r)]
           @ (if duration = 0 then []
              else [MoveToDelayed (js_add (timeline s (Suc (ticks s))) duration)
                      (bullToken r)])"
    and "world (snd (sleep r i duration s)) = world s"
  using assms
  by (cases "map_of (state d) i"; cases "duration = 0";
      simp add: api_defs runner_defs getState_of setState_of base_state_def runSleep_def)+


lemma getState_new_context [simp]: "getState i (new_context s) = getState i s"
  by (cases "getParsedData s")
     (simp_all add: new_context_def new_attempt_def dateNow_def getState_def
        split: option.splits)

lemma new_context_fields [simp]:
  "calls (new_context s) = calls s"
  "stored (new_context s) = stored s"
  "bull_data (new_context s) = bull_data s"
  "world (new_context s) = world s"
  by (simp_all add: new_context_def new_attempt_def dateNow_def)

lemma redeliver_fields [simp]:
  "calls (redeliver s) = calls s"
  "stored (redeliver s) = stored s"
  "bull_data (redeliver s) = stored s"
  "world (redeliver s) = world s"
  by (simp_all add: redeliver_def)

lemma log_fields [simp]:
  "calls (log lv m x s) = calls s"
  "stored (log lv m x s) = stored s"
  "bull_data (log lv m x s) = bull_data s"
  "world (log lv m x s) = world s"
  "logs (log lv m x s) = logs s @ [\<lparr>level = lv, message = m, log_data = x\<rparr>]"
  by (simp_all add: log_def)

section \<open>Sleep steps of the step executor\<close>

lemma forStep_put_step [simp]: "forStep i (put_step i st x) = st"
  by (simp add: forStep_def put_step_def update_conv')

lemma put_step_fields [simp]:
  "delay_requests (put_step i st x) = delay_requests x"
  "ctx_logs (put_step i st x) = ctx_logs x"
  "ctx_attempt (put_step i st x) = ctx_attempt x"
  "saved (put_step i st x) = saved x"
  "user_world (put_step i st x) = user_world x"
  by (simp_all add: put_step_def)

lemma step_start_fields [simp]:
  "delay_requests (step_start i x) = delay_requests x"
  "ctx_logs (step_start i x) = ctx_logs x"
  "ctx_attempt (step_start i x) = ctx_attempt x"
  "saved (step_start i x) = saved x"
  "user_world (step_start i x) = user_world x"
  by (simp_all add: step_start_def split: option.splits)

lemma forStep_context [simp]:
  "forStep i (ctx_log lv m v x) = forStep i x"
  "forStep i (state_start x) = forStep i x"
  "forStep i (state_updateData x) = forStep i x"
  "forStep i (wrapUp x) = forStep i x"
  "forStep i (state_finish x) = forStep i x"
  "forStep i (job_delay duration x) = forStep i x"
  by (simp_all add: forStep_def ctx_log_def state_start_def state_updateData_def wrapUp_def
      state_finish_def job_delay_def split: option.splits)









section \<open>The priority of a sleeping job\<close>

text \<open>
  The change of priority on the first pass of a sleep step of the runner whose
  identifier names no member of \<open>Object.prototype\<close> (purpose execute, the step not
  yet completed, the runtime intact, no step state under \<open>__proto__\<close> in the
  payload): the backend is asked to change the job's priority
  to the configured delayed priority, after the step state is stored and before the
  delay request and the suspend signal. The delayed priority is 1 when the
  configuration has no priority object, and when it has one that does not set
  \<open>delayDefaultValue\<close>; otherwise it is the value set.
\<close>

lemma sleep_changes_priority:
  assumes "purpose r = Execute" and "runtime_intact s" and "getParsedData s = Inr d"
    and "i \<notin> set object_prototype_members"
    and "\<forall>st. map_of (state d) i = Some st \<longrightarrow> status st \<noteq> Completed"
    and "map_of (state d) ''__proto__'' = None"
    and "s1 = snd (sleep r i duration s)"
  shows "calls s1 =
           calls s
           @ (if map_of (state d) i = None
              then [UpdateData (encode_job (d\<lparr>state :=
                      assign i (base_state i d) (state d)\<rparr>))]
              else [])
           @ [UpdateData (stored s1), ChangePriority (getDelayedPriority r)]
           @ (if duration = 0 then []
              else [MoveToDelayed (js_add (timeline s (Suc (ticks s))) duration)
                      (bullToken r)])
         \<and> getDelayedPriority (r\<lparr>priority := parse_priority None\<rparr>) = 1
         \<and> getDelayedPriority
             (r\<lparr>priority := parse_priority
                  (Some \<lparr>in_enabled = en, in_defaultValue = dv,
                         in_delayDefaultValue = None\<rparr>)\<rparr>) = 1
         \<and> getDelayedPriority
             (r\<lparr>priority := parse_priority
                  (Some \<lparr>in_enabled = en, in_defaultValue = dv,
                         in_delayDefaultValue = Some v\<rparr>)\<rparr>) = v"
  using sleep_first_pass(4) [OF assms(1) assms(3) assms(4) assms(5), of duration]
  by (simp add: assms(7) getDelayedPriority_def parse_priority_def)

lemma sleep_example_calls:
  "calls (snd (sleep (example_runner\<lparr>priority := parse_priority None\<rparr>) ''wait'' 500
                example_job)) =
     [UpdateData (encode_job (example_data\<lparr>state :=
        [(''wait'', \<lparr>slug = ''wait'', status = Pending, attempts = 0, data = JNull,
                     error = JNull, result = JUndefined\<rparr>)]\<rparr>)),
      UpdateData (encode_job (example_data\<lparr>state :=
        [(''wait'', \<lparr>slug = ''wait'', status = Completed, attempts = 0, data = JNull,
                     error = JNull, result = JNull\<rparr>)]\<rparr>)),
      ChangePriority 1,
      MoveToDelayed 501 None]"
proof -
  let ?r = "example_runner\<lparr>priority := parse_priority None\<rparr>"
  have p: "purpose ?r = Execute" by simp
  have n: "\<forall>st. map_of (state example_data) ''wait'' = Some st \<longrightarrow> status st \<noteq> Completed"
    by simp
  have t: "js_add 1 500 = 501"
    by (simp add: js_add_safe)
  have b: "bullToken ?r = None" by (simp add: example_runner_def)
  from sleep_changes_priority [OF p example_job_intact example_job_parsed example_names(4) n
      _ refl, of 500]
    sleep_first_pass(2) [OF p example_job_parsed example_names(4) n, of 500]
  show ?thesis
    by (simp add: t b base_state_def assign_new)
qed

text \<open>
  C9, where the code departs from it. On a job fresh from \<open>addJob\<close>, the first pass
  of a sleep step named \<open>toString\<close> asks the backend for nothing: no change of
  priority (and no update and no delay), and \<open>sleep\<close> throws an error of its own
  instead of the suspend signal. A sleep step named \<open>wait\<close> on the same job has its
  priority changed to 1, the default, before the delay request.
\<close>

theorem sleep_named_toString_keeps_priority:
  "calls (snd (sleep example_runner ''toString'' 500 example_job)) = []
   \<and> fst (sleep example_runner ''toString'' 500 example_job) =
       Inl (Error ''Expected step toString to have a sleep function.'')
   \<and> stored (snd (sleep example_runner ''toString'' 500 example_job)) =
       encode_job example_data
   \<and> drop 2 (calls (snd (sleep example_runner ''wait'' 500 example_job))) =
       [ChangePriority 1, MoveToDelayed 501 None]"
proof -
  have n: "\<forall>st. map_of (state example_data) ''wait'' = Some st \<longrightarrow> status st \<noteq> Completed"
    by simp
  have t: "js_add 1 500 = 501"
    by (simp add: js_add_safe)
  note f = sleep_first_pass [OF example_runner_purpose example_job_parsed example_names(4) n,
      of 500]
  have "drop 2 (calls (snd (sleep example_runner ''wait'' 500 example_job))) =
       [ChangePriority 1, MoveToDelayed 501 None]"
    using f(4) by (simp add: t getDelayedPriority_def example_runner_def)
  moreover have "calls (snd (sleep example_runner ''toString'' 500 example_job)) = []"
    "fst (sleep example_runner ''toString'' 500 example_job) =
       Inl (Error ''Expected step toString to have a sleep function.'')"
    "stored (snd (sleep example_runner ''toString'' 500 example_job)) =
       encode_job example_data"
    by (simp_all add: api_defs runner_defs inherited_defs)
  ultimately show ?thesis by simp
qed

section \<open>A sleep of duration 0\<close>

text \<open>
  A sleep of duration 0 on the first pass of a sleep step of the runner whose identifier
  names no member of \<open>Object.prototype\<close> (purpose execute, the step not yet
  completed, the runtime intact, no step state under \<open>__proto__\<close> in the payload):
  \<open>sleep\<close> throws the error of the guard of
  \<open>#runSleep\<close>, not \<open>DelayedError\<close>, and the backend is not asked to delay the job:
  the calls made are the updates of the payload and the change of priority.
\<close>

lemma sleep_zero_duration_throws:
  assumes "purpose r = Execute" and "runtime_intact s" and "getParsedData s = Inr d"
    and "i \<notin> set object_prototype_members"
    and "\<forall>st. map_of (state d) i = Some st \<longrightarrow> status st \<noteq> Completed"
    and "map_of (state d) ''__proto__'' = None"
    and "s1 = snd (sleep r i 0 s)"
  shows "fst (sleep r i 0 s) = Inl (Error ''Missing duration or type for #runSleep()'')
         \<and> fst (sleep r i 0 s) \<noteq> Inl DelayedError
         \<and> calls s1 =
             calls s
             @ (if map_of (state d) i = None
                then [UpdateData (encode_job (d\<lparr>state :=
                        assign i (base_state i d) (state d)\<rparr>))]
                else [])
             @ [UpdateData (stored s1), ChangePriority (getDelayedPriority r)]
         \<and> MoveToDelayed t tok \<notin> set (drop (length (calls s)) (calls s1))"
  using sleep_first_pass(1,4) [OF assms(1) assms(3) assms(4) assms(5), of 0]
  by (simp add: assms(7))

text \<open>
  C10, where the code departs from it. On a job fresh from \<open>addJob\<close>, a sleep of
  duration 0 in a step named \<open>valueOf\<close> does not reach the guard of \<open>#runSleep\<close>:
  \<open>sleep\<close> throws another error, that the step has no sleep function, and the backend
  is asked for nothing. In a step named \<open>nap\<close> the same call throws the error of the
  guard, after the updates of the payload and the change of priority.
\<close>

theorem sleep_zero_named_valueOf:
  "fst (sleep example_runner ''valueOf'' 0 example_job) =
     Inl (Error ''Expected step valueOf to have a sleep function.'')
   \<and> fst (sleep example_runner ''valueOf'' 0 example_job) \<noteq>
       Inl (Error ''Missing duration or type for #runSleep()'')
   \<and> calls (snd (sleep example_runner ''valueOf'' 0 example_job)) = []
   \<and> fst (sleep example_runner ''nap'' 0 example_job) =
       Inl (Error ''Missing duration or type for #runSleep()'')
   \<and> calls (snd (sleep example_runner ''nap'' 0 example_job)) =
       [UpdateData (encode_job (example_data\<lparr>state :=
          [(''nap'', \<lparr>slug = ''nap'', status = Pending, attempts = 0, data = JNull,
                      error = JNull, result = JUndefined\<rparr>)]\<rparr>)),
        UpdateData (encode_job (example_data\<lparr>state :=
          [(''nap'', \<lparr>slug = ''nap'', status = Completed, attempts = 0, data = JNull,
                      error = JNull, result = JNull\<rparr>)]\<rparr>)),
        ChangePriority 1]"
proof -
  have n: "\<forall>st. map_of (state example_data) ''nap'' = Some st \<longrightarrow> status st \<noteq> Completed"
    by simp
  note f = sleep_first_pass [OF example_runner_purpose example_job_parsed example_names(5) n,
      of 0]
  have "fst (sleep example_runner ''nap'' 0 example_job) =
       Inl (Error ''Missing duration or type for #runSleep()'')"
    using f(1) by simp
  moreover have "calls (snd (sleep example_runner ''nap'' 0 example_job)) =
       [UpdateData (encode_job (example_data\<lparr>state :=
          [(''nap'', \<lparr>slug = ''nap'', status = Pending, attempts = 0, data = JNull,
                      error = JNull, result = JUndefined\<rparr>)]\<rparr>)),
        UpdateData (encode_job (example_data\<lparr>state :=
          [(''nap'', \<lparr>slug = ''nap'', status = Completed, attempts = 0, data = JNull,
                      error = JNull, result = JNull\<rparr>)]\<rparr>)),
        ChangePriority 1]"
    using f(2) f(4)
    by (simp add: base_state_def assign_new getDelayedPriority_def example_runner_def)
  moreover have "fst (sleep example_runner ''valueOf'' 0 example_job) =
     Inl (Error ''Expected step valueOf to have a sleep function.'')"
    "calls (snd (sleep example_runner ''valueOf'' 0 example_job)) = []"
    by (simp_all add: api_defs runner_defs inherited_defs)
  ultimately show ?thesis by simp
qed

section \<open>The invocation: processJob\<close>

lemma format_fields [simp]:
  "bull_data (snd (format a s)) = bull_data s"
  "stored (snd (format a s)) = stored s"
  "calls (snd (format a s)) = calls s"
  "logs (snd (format a s)) = logs s"
  "world (snd (format a s)) = world s"
  "jobAttempt (snd (format a s)) = jobAttempt s"
  "stepAttempts (snd (format a s)) = stepAttempts s"
  by (simp_all add: format_def dateNow_def)

lemma format_all_fields [simp]:
  "bull_data (snd (format_all as s)) = bull_data s"
  "stored (snd (format_all as s)) = stored s"
  "calls (snd (format_all as s)) = calls s"
  "logs (snd (format_all as s)) = logs s"
  "world (snd (format_all as s)) = world s"
  "jobAttempt (snd (format_all as s)) = jobAttempt s"
  by (induction as arbitrary: s; simp add: case_prod_beta)+

lemma formatAttempts_fields [simp]:
  "bull_data (snd (formatAttempts s)) = bull_data s"
  "stored (snd (formatAttempts s)) = stored s"
  "calls (snd (formatAttempts s)) = calls s"
  "logs (snd (formatAttempts s)) = logs s"
  "world (snd (formatAttempts s)) = world s"
  "jobAttempt (snd (formatAttempts s)) = jobAttempt s"
  by (simp_all add: formatAttempts_def case_prod_beta)

lemma getParsedData_format [simp]:
  "getParsedData (snd (format a s)) = getParsedData s"
  "getParsedData (snd (formatAttempts s)) = getParsedData s"
  by (simp_all add: getParsedData_def)

lemma finalize_of:
  assumes "getParsedData s = Inr d"
  shows "stored (finalize s) = encode_job (finalized d s)"
    and "bull_data (finalize s) = encode_job (finalized d s)"
    and "calls (finalize s) = calls s @ [UpdateData (encode_job (finalized d s))]"
    and "logs (finalize s) = logs s"
    and "world (finalize s) = world s"
  using assms
  by (simp_all add: finalize_def finalized_def updateData_def case_prod_beta)

lemma prepare_of_prepared:
  "getParsedData s = Inr d \<Longrightarrow> prepared d \<Longrightarrow> prepare s = (Inr d, s)"
  by (simp add: prepare_def getParsedData_def)

lemma getSourceData_of:
  "getParsedData s = Inr d \<Longrightarrow> getSourceData r s = schema r (source d)"
  by (simp add: getSourceData_def)

lemma getParsedData_new_context [simp]: "getParsedData (new_context s) = getParsedData s"
  by (simp add: new_context_def new_attempt_def dateNow_def)

lemma processJob_of:
  assumes "getParsedData s = Inr d" and "prepared d" and "sch (source d) = Inr src"
  shows "processJob cfg sch tok handler s =
           (case handler \<lparr>purpose = Execute, bullToken = tok, priority = cfg, schema = sch\<rparr>
                   src (new_context s) of
              (Inl e, s2) \<Rightarrow> (Inl e, s2)
            | (Inr v, s2) \<Rightarrow> (Inr v, finalize s2))"
  using assms by (simp add: processJob_def prepare_of_prepared getSourceData_of)

lemma finalized_state [simp]: "state (finalized d s) = state d"
  by (simp add: finalized_def)

lemma replay_scenario:
  assumes g: "getParsedData s = Inr d" and p: "prepared d" and f: "state d = []"
    and sch: "sch (source d) = Inr src"
    and hA: "hA (world s) = (Inr a, w1)" and hB1: "hB w1 = (Inl e, w2)"
    and hB2: "hB w2 = (Inr b, w3)" and hC: "hC w3 = (Inr c, w4)"
    and s1: "s1 = snd (processJob cfg sch tok (abc_workflow hA hB hC) s)"
    and s2: "s2 = snd (processJob cfg sch tok (abc_workflow hA hB hC) (redeliver s1))"
  shows "fst (processJob cfg sch tok (abc_workflow hA hB hC) s) =
           Inl (Error ''Step B failed.'')"
    and "getState ''B'' (redeliver s1) =
           Inr (StoredState \<lparr>slug = ''B'', status = Failed, attempts = 0, data = JNull,
                              error = e, result = JNull\<rparr>)"
    and "fst (processJob cfg sch tok (abc_workflow hA hB hC) (redeliver s1)) = Inr c"
    and "getState ''A'' (redeliver s2) =
           Inr (StoredState \<lparr>slug = ''A'', status = Completed, attempts = 0, data = JNull,
                              error = JNull, result = a\<rparr>)"
    and "getState ''B'' (redeliver s2) =
           Inr (StoredState \<lparr>slug = ''B'', status = Completed, attempts = 0, data = JNull,
                              error = e, result = b\<rparr>)"
    and "getState ''C'' (redeliver s2) =
           Inr (StoredState \<lparr>slug = ''C'', status = Completed, attempts = 0, data = JNull,
                              error = JNull, result = c\<rparr>)"
    and "world s2 = w4"
proof -
  let ?R = "\<lparr>purpose = Execute, bullToken = tok, priority = cfg, schema = sch\<rparr>"
  let ?stA = "\<lparr>slug = ''A'', status = Completed, attempts = 0, data = JNull,
               error = JNull, result = a\<rparr>"
  let ?stB1 = "\<lparr>slug = ''B'', status = Failed, attempts = 0, data = JNull,
                error = e, result = JNull\<rparr>"
  let ?stB2 = "\<lparr>slug = ''B'', status = Completed, attempts = 0, data = JNull,
                error = e, result = b\<rparr>"
  let ?stC = "\<lparr>slug = ''C'', status = Completed, attempts = 0, data = JNull,
               error = JNull, result = c\<rparr>"
  let ?d1 = "d\<lparr>state := [(''A'', ?stA), (''B'', ?stB1)]\<rparr>"
  let ?d2 = "d\<lparr>state := [(''A'', ?stA), (''B'', ?stB2)]\<rparr>"
  let ?d3 = "d\<lparr>state := [(''A'', ?stA), (''B'', ?stB2), (''C'', ?stC)]\<rparr>"
  have R: "purpose ?R = Execute" by simp
  \<comment> \<open>first invocation: A runs, B throws\<close>
  define c0 where "c0 = new_context s"
  have g0: "getParsedData c0 = Inr d" by (simp add: c0_def g)
  have nA: "\<forall>st. map_of (state d) ''A'' = Some st \<longrightarrow> status st \<noteq> Completed"
    by (simp add: f)
  have hA0: "hA (world c0) = (Inr a, w1)" by (simp add: c0_def hA)
  define sA where "sA = snd (step ?R ''A'' hA c0)"
  note A = step_returns [where r = ?R and s = c0 and handler = hA and i = "''A''",
      OF R g0 example_names(7) nA hA0]
  have gA: "getParsedData sA = Inr (d\<lparr>state := [(''A'', ?stA)]\<rparr>)"
    using A(2) by (simp add: sA_def f base_state_def assign_new)
  have wA: "world sA = w1" using A(6) by (simp add: sA_def)
  have eA: "step ?R ''A'' hA c0 = (Inr a, sA)"
    using A(1) by (simp add: sA_def prod_eq_iff)
  have nB: "\<forall>st. map_of (state (d\<lparr>state := [(''A'', ?stA)]\<rparr>)) ''B'' = Some st
      \<longrightarrow> status st \<noteq> Completed"
    by simp
  have hB0: "hB (world sA) = (Inl e, w2)" by (simp add: wA hB1)
  define sB where "sB = snd (step ?R ''B'' hB sA)"
  note B = step_throws [where r = ?R and s = sA and handler = hB and i = "''B''",
      OF R gA example_names(8) nB hB0]
  have tB: "stored sB = encode_job ?d1"
    using B(3) by (simp add: sB_def base_state_def assign_new)
  have wB: "world sB = w2" using B(6) by (simp add: sB_def)
  have eB: "step ?R ''B'' hB sA = (Inl (Error ''Step B failed.''), sB)"
    using B(1) by (simp add: sB_def prod_eq_iff)
  have w1: "abc_workflow hA hB hC ?R src c0 = (Inl (Error ''Step B failed.''), sB)"
    by (simp add: abc_workflow_def eA eB)
  have P1: "processJob cfg sch tok (abc_workflow hA hB hC) s =
      (Inl (Error ''Step B failed.''), sB)"
    using w1 by (simp add: processJob_of [where sch = sch, OF g p sch] c0_def)
  then show "fst (processJob cfg sch tok (abc_workflow hA hB hC) s) =
      Inl (Error ''Step B failed.'')"
    by simp
  from P1 have s1': "s1 = sB" by (simp add: s1)
  have st1: "stored s1 = encode_job ?d1" by (simp add: s1' tB)
  then show "getState ''B'' (redeliver s1) = Inr (StoredState ?stB1)"
    by (rule getState_redeliver) simp
  \<comment> \<open>second invocation: A is cached, B and C run\<close>
  have g1: "getParsedData (redeliver s1) = Inr ?d1"
    by (simp add: getParsedData_def st1)
  have p1: "prepared ?d1" by (simp add: p)
  have sch1: "sch (source ?d1) = Inr src" by (simp add: sch)
  define c1 where "c1 = new_context (redeliver s1)"
  have gc1: "getParsedData c1 = Inr ?d1" by (simp add: c1_def g1)
  have wc1: "world c1 = w2" by (simp add: c1_def s1' wB)
  have cA: "getState ''A'' c1 = Inr (StoredState ?stA)"
    by (rule getState_stored [OF gc1]) simp
  define l where "l = log Info ''Step A is already completed'' NoData c1"
  have eA2: "step ?R ''A'' hA c1 = (Inr (if nullish a then JUndefined else a), l)"
    using step_cached [OF R cA, of hA] by (simp add: l_def)
  have gl: "getParsedData l = Inr ?d1" by (simp add: l_def log_def gc1)
  have wl: "world l = w2" by (simp add: l_def wc1)
  have nB2: "\<forall>st. map_of (state ?d1) ''B'' = Some st \<longrightarrow> status st \<noteq> Completed"
    by simp
  have hB20: "hB (world l) = (Inr b, w3)" by (simp add: wl hB2)
  define sB2 where "sB2 = snd (step ?R ''B'' hB l)"
  note B2 = step_returns [where r = ?R and s = l and handler = hB and i = "''B''",
      OF R gl example_names(8) nB2 hB20]
  have gB2: "getParsedData sB2 = Inr ?d2"
    using B2(2) by (simp add: sB2_def base_state_def assign_def)
  have wB2: "world sB2 = w3" using B2(6) by (simp add: sB2_def)
  have eB2: "step ?R ''B'' hB l = (Inr b, sB2)"
    using B2(1) by (simp add: sB2_def prod_eq_iff)
  have nC: "\<forall>st. map_of (state ?d2) ''C'' = Some st \<longrightarrow> status st \<noteq> Completed"
    by simp
  have hC0: "hC (world sB2) = (Inr c, w4)" by (simp add: wB2 hC)
  define sC where "sC = snd (step ?R ''C'' hC sB2)"
  note C = step_returns [where r = ?R and s = sB2 and handler = hC and i = "''C''",
      OF R gB2 example_names(9) nC hC0]
  have gC: "getParsedData sC = Inr ?d3"
    using C(2) by (simp add: sC_def base_state_def assign_new)
  have wC: "world sC = w4" using C(6) by (simp add: sC_def)
  have eC: "step ?R ''C'' hC sB2 = (Inr c, sC)"
    using C(1) by (simp add: sC_def prod_eq_iff)
  have w2: "abc_workflow hA hB hC ?R src c1 = (Inr c, sC)"
    by (simp add: abc_workflow_def eA2 eB2 eC)
  have P2: "processJob cfg sch tok (abc_workflow hA hB hC) (redeliver s1) =
      (Inr c, finalize sC)"
    using w2 by (simp add: processJob_of [where sch = sch, OF g1 p1 sch1] c1_def)
  then show "fst (processJob cfg sch tok (abc_workflow hA hB hC) (redeliver s1)) = Inr c"
    by simp
  from P2 have s2': "s2 = finalize sC" by (simp add: s2)
  have st2: "stored s2 = encode_job (finalized ?d3 sC)"
    by (simp add: s2' finalize_of(1) [OF gC])
  show "getState ''A'' (redeliver s2) = Inr (StoredState ?stA)"
    by (rule getState_redeliver [OF st2]) simp
  show "getState ''B'' (redeliver s2) = Inr (StoredState ?stB2)"
    by (rule getState_redeliver [OF st2]) simp
  show "getState ''C'' (redeliver s2) = Inr (StoredState ?stC)"
    by (rule getState_redeliver [OF st2]) simp
  show "world s2 = w4"
    by (simp add: s2' finalize_of(5) [OF gC] wC)
qed

lemmas invocation_defs =
  processJob_def prepare_def getSourceData_def getParsedData_def new_context_def
  finalize_def formatAttempts_def format_def updateData_def setState_def getState_def
  attempt_complete_def attempt_fail_def object_prototype_members_def assign_def
  is_array_index_def is_digit_def

lemma example_data_fields [simp]:
  "prepared example_data"
  "job_attempts example_data = []"
  "step_attempts example_data = []"
  by (simp_all add: example_data_def)

lemma obj_keys_encode_job [simp]:
  "obj_keys (encode_job d) =
     [''source'', ''__prepared'', ''__state'', ''__attempts'', ''__step_attempts'']"
  by (simp add: encode_job_def)

section \<open>Finalization\<close>

text \<open>
  C3, on the runner's \<open>processJob\<close>, evaluated on a job fresh from \<open>addJob\<close> with the
  clock reading 0, 1, 2, ... When the workflow's step throws, \<open>processJob\<close> throws
  with the failed step attempt still in the runner context only: the stored payload has
  the step state that \<open>setState\<close> wrote and no attempts, and no update follows the
  step's own. The same when the workflow sleeps and \<open>DelayedError\<close> leaves it. Only
  when the workflow returns are the formatted step attempt and job attempt added to the
  payload and stored, by a last update.
\<close>

theorem processJob_finalizes_only_on_return:
  "fst (processJob None Inr None (charge_workflow (throws (JStr ''declined''))) example_job)
     = Inl (Error ''Step charge failed.'')
   \<and> stepAttempts
       (snd (processJob None Inr None (charge_workflow (throws (JStr ''declined'')))
               example_job))
     = [\<lparr>a_type = StepAttempt, a_status = AttemptFailed, a_name = ''step.charge'',
         a_start = 1, a_end = NumNull, a_duration = NumUndefined,
         a_error = JStr ''declined''\<rparr>]
   \<and> stored
       (snd (processJob None Inr None (charge_workflow (throws (JStr ''declined'')))
               example_job))
     = encode_job (example_data\<lparr>state :=
         [(''charge'', \<lparr>slug = ''charge'', status = Failed, attempts = 0, data = JNull,
                        error = JStr ''declined'', result = JNull\<rparr>)]\<rparr>)
   \<and> length (calls
       (snd (processJob None Inr None (charge_workflow (throws (JStr ''declined'')))
               example_job))) = 2
   \<and> fst (processJob None Inr None sleeping_workflow example_job) = Inl DelayedError
   \<and> stored (snd (processJob None Inr None sleeping_workflow example_job))
     = encode_job (example_data\<lparr>state :=
         [(''wait'', \<lparr>slug = ''wait'', status = Completed, attempts = 0, data = JNull,
                      error = JNull, result = JNull\<rparr>)]\<rparr>)
   \<and> drop 2 (calls (snd (processJob None Inr None sleeping_workflow example_job)))
     = [ChangePriority 1, MoveToDelayed 1002 None]
   \<and> fst (processJob None Inr None (charge_workflow (returns (JNum 7))) example_job)
     = Inr (JNum 7)
   \<and> stored (snd (processJob None Inr None (charge_workflow (returns (JNum 7))) example_job))
     = encode_job (example_data\<lparr>
         state :=
           [(''charge'', \<lparr>slug = ''charge'', status = Completed, attempts = 0,
                          data = JNull, error = JNull, result = JNum 7\<rparr>)],
         step_attempts :=
           [\<lparr>a_type = StepAttempt, a_status = AttemptCompleted, a_name = ''step.charge'',
             a_start = 1, a_end = Num 2, a_duration = Num 1, a_error = JNull\<rparr>],
         job_attempts :=
           [\<lparr>a_type = JobAttempt, a_status = AttemptActive, a_name = ''job'',
             a_start = 0, a_end = Num 3, a_duration = Num 3, a_error = JNull\<rparr>]\<rparr>)
   \<and> last (calls
       (snd (processJob None Inr None (charge_workflow (returns (JNum 7))) example_job)))
     = UpdateData
         (stored
           (snd (processJob None Inr None (charge_workflow (returns (JNum 7))) example_job)))"
proof -
  have a: "processJob None Inr None (charge_workflow (throws (JStr ''declined''))) example_job
    = (Inl (Error ''Step charge failed.''),
       example_job
       \<lparr>jobAttempt :=
          \<lparr>a_type = JobAttempt, a_status = AttemptActive, a_name = ''job'',
             a_start = 0, a_end = NumNull, a_duration = NumUndefined,
             a_error = JNull\<rparr>,
          steps := [''charge''], ticks := Suc (Suc 0), world := Suc 0,
          stepAttempts :=
            [\<lparr>a_type = StepAttempt, a_status = AttemptFailed,
                a_name = ''step.charge'', a_start = 1, a_end = NumNull,
                a_duration = NumUndefined, a_error = JStr ''declined''\<rparr>],
          bull_data :=
            encode_job
             (example_data
              \<lparr>state :=
                 [(''charge'',
                   \<lparr>slug = ''charge'', status = Failed, attempts = 0,
                      data = JNull, error = JStr ''declined'',
                      result = JNull\<rparr>)]\<rparr>),
          stored :=
            encode_job
             (example_data
              \<lparr>state :=
                 [(''charge'',
                   \<lparr>slug = ''charge'', status = Failed, attempts = 0,
                      data = JNull, error = JStr ''declined'',
                      result = JNull\<rparr>)]\<rparr>),
          calls :=
            [UpdateData
              (encode_job
                (example_data
                 \<lparr>state :=
                    [(''charge'',
                      \<lparr>slug = ''charge'', status = Pending, attempts = 0,
                         data = JNull, error = JNull,
                         result = JUndefined\<rparr>)]\<rparr>)),
             UpdateData
              (encode_job
                (example_data
                 \<lparr>state :=
                    [(''charge'',
                      \<lparr>slug = ''charge'', status = Failed, attempts = 0,
                         data = JNull, error = JStr ''declined'',
                         result = JNull\<rparr>)]\<rparr>))],
          logs :=
            [\<lparr>level = Info,
                message =
                  ''First time running step charge, saving step to state'',
                log_data = NoData\<rparr>,
             \<lparr>level = Debug, message = ''Step charge has thrown an error.'',
                log_data = Data (JStr ''declined'')\<rparr>,
             \<lparr>level = Debug, message = ''Step charge has thrown an error.'',
                log_data =
                  ResultData
                   \<lparr>er_status = RunFailed, er_result = JNull,
                      er_state =
                        StoredState
                         \<lparr>slug = ''charge'', status = Failed, attempts = 0,
                            data = JNull, error = JStr ''declined'',
                            result = JNull\<rparr>,
                      er_sleep = False\<rparr>\<rparr>]\<rparr>)"
    by (simp add: invocation_defs charge_workflow_def api_defs runner_defs throws_def
        update_conv')
  have b: "fst (processJob None Inr None sleeping_workflow example_job) = Inl DelayedError"
    "stored (snd (processJob None Inr None sleeping_workflow example_job))
     = encode_job (example_data\<lparr>state :=
         [(''wait'', \<lparr>slug = ''wait'', status = Completed, attempts = 0, data = JNull,
                      error = JNull, result = JNull\<rparr>)]\<rparr>)"
    "drop 2 (calls (snd (processJob None Inr None sleeping_workflow example_job)))
     = [ChangePriority 1, MoveToDelayed 1002 None]"
    by (simp_all add: invocation_defs sleeping_workflow_def api_defs runner_defs runSleep_def
        getDelayedPriority_def update_conv' js_add_safe)
  have c: "fst (processJob None Inr None (charge_workflow (returns (JNum 7))) example_job)
     = Inr (JNum 7)"
    "stored (snd (processJob None Inr None (charge_workflow (returns (JNum 7))) example_job))
     = encode_job (example_data\<lparr>
         state :=
           [(''charge'', \<lparr>slug = ''charge'', status = Completed, attempts = 0,
                          data = JNull, error = JNull, result = JNum 7\<rparr>)],
         step_attempts :=
           [\<lparr>a_type = StepAttempt, a_status = AttemptCompleted, a_name = ''step.charge'',
             a_start = 1, a_end = Num 2, a_duration = Num 1, a_error = JNull\<rparr>],
         job_attempts :=
           [\<lparr>a_type = JobAttempt, a_status = AttemptActive, a_name = ''job'',
             a_start = 0, a_end = Num 3, a_duration = Num 3, a_error = JNull\<rparr>]\<rparr>)"
    "last (calls
       (snd (processJob None Inr None (charge_workflow (returns (JNum 7))) example_job)))
     = UpdateData
         (stored
           (snd (processJob None Inr None (charge_workflow (returns (JNum 7))) example_job)))"
    by (simp_all add: invocation_defs charge_workflow_def api_defs runner_defs returns_def
        update_conv')
  from a b c show ?thesis by simp
qed

section \<open>The attempts counter of a step\<close>

text \<open>
  C4 (amended). In a runtime that is intact and on a payload that has no step state
  under \<open>__proto__\<close>, when the handler of a step throws, and the step's identifier
  names no member of \<open>Object.prototype\<close>, the step's state is stored with status
  failed and the error, its result \<open>null\<close>, and its attempts count as it was: 0 for
  a step that had no state, and nothing in the runner adds to it. For a workflow with steps A, B, C on a new job, where B's handler throws on the
  first invocation and returns on the second: the first invocation fails at B, the
  second returns, and the final payload shows A, B and C completed with B's attempts
  equal to 0 (and the error of the first invocation still in B's state).
\<close>

theorem step_failure_keeps_attempts:
  assumes "s1 = snd (processJob cfg sch tok (abc_workflow hA hB hC) s)"
    and "s2 = snd (processJob cfg sch tok (abc_workflow hA hB hC) (redeliver s1))"
  shows "(purpose r = Execute \<and> runtime_intact t \<and> getParsedData t = Inr d'
          \<and> i \<notin> set object_prototype_members \<and> map_of (state d') ''__proto__'' = None
          \<and> (\<forall>st. map_of (state d') i = Some st \<longrightarrow> status st \<noteq> Completed)
          \<and> handler (world t) = (Inl e', w) \<longrightarrow>
            fst (step r i handler t) = Inl (Error (''Step '' @ i @ '' failed.''))
          \<and> getState i (redeliver (snd (step r i handler t))) =
              Inr (StoredState ((base_state i d')\<lparr>status := Failed, error := e', result := JNull\<rparr>))
          \<and> (case getState i (redeliver (snd (step r i handler t))) of
                Inr (StoredState st) \<Rightarrow> Some (attempts st)
              | _ \<Rightarrow> None) =
              Some (attempts (base_state i d')))
       \<and> (runtime_intact s \<and> getParsedData s = Inr d \<and> prepared d \<and> state d = []
          \<and> sch (source d) = Inr src
          \<and> hA (world s) = (Inr a, wa) \<and> hB wa = (Inl e, wb)
          \<and> hB wb = (Inr b, wc) \<and> hC wc = (Inr c, wd) \<longrightarrow>
            fst (processJob cfg sch tok (abc_workflow hA hB hC) s) =
              Inl (Error ''Step B failed.'')
          \<and> getState ''B'' (redeliver s1) =
              Inr (StoredState \<lparr>slug = ''B'', status = Failed, attempts = 0, data = JNull,
                                error = e, result = JNull\<rparr>)
          \<and> fst (processJob cfg sch tok (abc_workflow hA hB hC) (redeliver s1)) = Inr c
          \<and> getState ''A'' (redeliver s2) =
              Inr (StoredState \<lparr>slug = ''A'', status = Completed, attempts = 0, data = JNull,
                                error = JNull, result = a\<rparr>)
          \<and> getState ''B'' (redeliver s2) =
              Inr (StoredState \<lparr>slug = ''B'', status = Completed, attempts = 0, data = JNull,
                                error = e, result = b\<rparr>)
          \<and> getState ''C'' (redeliver s2) =
              Inr (StoredState \<lparr>slug = ''C'', status = Completed, attempts = 0, data = JNull,
                                error = JNull, result = c\<rparr>))"
proof (intro conjI impI)
  assume h: "purpose r = Execute \<and> runtime_intact t \<and> getParsedData t = Inr d'
          \<and> i \<notin> set object_prototype_members \<and> map_of (state d') ''__proto__'' = None
          \<and> (\<forall>st. map_of (state d') i = Some st \<longrightarrow> status st \<noteq> Completed)
          \<and> handler (world t) = (Inl e', w)"
  then have p: "purpose r = Execute" and g: "getParsedData t = Inr d'"
    and m: "i \<notin> set object_prototype_members"
    and n: "\<forall>st. map_of (state d') i = Some st \<longrightarrow> status st \<noteq> Completed"
    and k: "handler (world t) = (Inl e', w)"
    by simp_all
  note T = step_throws [where r = r and s = t and handler = handler and i = i, OF p g m n k]
  from T(1) show "fst (step r i handler t) = Inl (Error (''Step '' @ i @ '' failed.''))" .
  from T(3) show st: "getState i (redeliver (snd (step r i handler t))) =
      Inr (StoredState ((base_state i d')\<lparr>status := Failed, error := e', result := JNull\<rparr>))"
    by (rule getState_redeliver) simp
  then show "(case getState i (redeliver (snd (step r i handler t))) of
                Inr (StoredState st) \<Rightarrow> Some (attempts st)
              | _ \<Rightarrow> None) =
              Some (attempts (base_state i d'))"
    by simp
next
  assume h: "runtime_intact s \<and> getParsedData s = Inr d \<and> prepared d \<and> state d = []
          \<and> sch (source d) = Inr src
          \<and> hA (world s) = (Inr a, wa) \<and> hB wa = (Inl e, wb)
          \<and> hB wb = (Inr b, wc) \<and> hC wc = (Inr c, wd)"
  then have g: "getParsedData s = Inr d" and p: "prepared d" and f: "state d = []"
    and sc: "sch (source d) = Inr src"
    and hA: "hA (world s) = (Inr a, wa)" and hB1: "hB wa = (Inl e, wb)"
    and hB2: "hB wb = (Inr b, wc)" and hC: "hC wc = (Inr c, wd)"
    by simp_all
  note S = replay_scenario [where sch = sch and hA = hA and hB = hB and hC = hC,
      OF g p f sc hA hB1 hB2 hC assms(1) assms(2)]
  from S(1) show "fst (processJob cfg sch tok (abc_workflow hA hB hC) s) =
      Inl (Error ''Step B failed.'')" .
  from S(2) show "getState ''B'' (redeliver s1) =
              Inr (StoredState \<lparr>slug = ''B'', status = Failed, attempts = 0, data = JNull,
                                error = e, result = JNull\<rparr>)" .
  from S(3) show "fst (processJob cfg sch tok (abc_workflow hA hB hC) (redeliver s1)) = Inr c" .
  from S(4) show "getState ''A'' (redeliver s2) =
              Inr (StoredState \<lparr>slug = ''A'', status = Completed, attempts = 0, data = JNull,
                                error = JNull, result = a\<rparr>)" .
  from S(5) show "getState ''B'' (redeliver s2) =
              Inr (StoredState \<lparr>slug = ''B'', status = Completed, attempts = 0, data = JNull,
                                error = e, result = b\<rparr>)" .
  from S(6) show "getState ''C'' (redeliver s2) =
              Inr (StoredState \<lparr>slug = ''C'', status = Completed, attempts = 0, data = JNull,
                                error = JNull, result = c\<rparr>)" .
qed

lemma example_handlers:
  "returns (JNum 1) (world example_job) = (Inr (JNum 1), 1)"
  "flaky 1 = (Inl (JStr ''boom''), 2)"
  "flaky 2 = (Inr (JNum 2), 3)"
  "returns (JNum 3) 3 = (Inr (JNum 3), 4)"
  by (simp_all add: returns_def flaky_def)

theorem step_failure_keeps_attempts_witness:
  "fst (step example_runner ''charge'' (throws (JStr ''declined'')) example_job) =
     Inl (Error ''Step charge failed.'')
   \<and> getState ''charge''
       (redeliver (snd (step example_runner ''charge'' (throws (JStr ''declined'')) example_job)))
     = Inr (StoredState \<lparr>slug = ''charge'', status = Failed, attempts = 0, data = JNull,
                         error = JStr ''declined'', result = JNull\<rparr>)
   \<and> fst (processJob None Inr None (abc_workflow (returns (JNum 1)) flaky (returns (JNum 3)))
            example_job) = Inl (Error ''Step B failed.'')
   \<and> fst (processJob None Inr None (abc_workflow (returns (JNum 1)) flaky (returns (JNum 3)))
            (redeliver
              (snd (processJob None Inr None
                      (abc_workflow (returns (JNum 1)) flaky (returns (JNum 3)))
                      example_job)))) = Inr (JNum 3)
   \<and> getState ''C''
       (redeliver
         (snd (processJob None Inr None
                 (abc_workflow (returns (JNum 1)) flaky (returns (JNum 3)))
                 (redeliver
                   (snd (processJob None Inr None
                           (abc_workflow (returns (JNum 1)) flaky (returns (JNum 3)))
                           example_job))))))
     = Inr (StoredState \<lparr>slug = ''C'', status = Completed, attempts = 0, data = JNull,
                         error = JNull, result = JNum 3\<rparr>)"
proof -
  have h1: "purpose example_runner = Execute \<and> runtime_intact example_job
      \<and> getParsedData example_job = Inr example_data
      \<and> ''charge'' \<notin> set object_prototype_members
      \<and> map_of (state example_data) ''__proto__'' = None
      \<and> (\<forall>st. map_of (state example_data) ''charge'' = Some st \<longrightarrow> status st \<noteq> Completed)
      \<and> throws (JStr ''declined'') (world example_job) = (Inl (JStr ''declined''), 1)"
    by (simp add: throws_def)
  have h2: "runtime_intact example_job
      \<and> getParsedData example_job = Inr example_data \<and> prepared example_data
      \<and> state example_data = [] \<and> Inr (source example_data) = Inr (source example_data)
      \<and> returns (JNum 1) (world example_job) = (Inr (JNum 1), 1)
      \<and> flaky 1 = (Inl (JStr ''boom''), 2) \<and> flaky 2 = (Inr (JNum 2), 3)
      \<and> returns (JNum 3) 3 = (Inr (JNum 3), 4)"
    by (simp add: returns_def flaky_def)
  from step_failure_keeps_attempts [where cfg = None and sch = Inr and tok = None
      and hA = "returns (JNum 1)" and hB = flaky and hC = "returns (JNum 3)"
      and s = example_job and r = example_runner and t = example_job and d' = example_data
      and i = "''charge''" and handler = "throws (JStr ''declined'')"
      and e' = "JStr ''declined''" and w = 1 and d = example_data
      and src = "source example_data" and a = "JNum 1" and wa = 1 and e = "JStr ''boom''"
      and wb = 2 and b = "JNum 2" and wc = 3 and c = "JNum 3" and wd = 4,
      OF refl refl] h1 h2
  show ?thesis by (simp add: base_state_def)
qed

text \<open>
  C4 as stated fails: in the replay of a workflow A, B, C whose step B throws on the
  first invocation and returns on the second, the final payload shows A, B and C
  completed, and B's attempts count is 0, not 2.
\<close>

theorem replay_attempts_stay_zero:
  "getState ''A''
     (redeliver
       (snd (processJob None Inr None
               (abc_workflow (returns (JNum 1)) flaky (returns (JNum 3)))
               (redeliver
                 (snd (processJob None Inr None
                         (abc_workflow (returns (JNum 1)) flaky (returns (JNum 3)))
                         example_job))))))
     = Inr (StoredState \<lparr>slug = ''A'', status = Completed, attempts = 0, data = JNull,
                         error = JNull, result = JNum 1\<rparr>)
   \<and> getState ''B''
     (redeliver
       (snd (processJob None Inr None
               (abc_workflow (returns (JNum 1)) flaky (returns (JNum 3)))
               (redeliver
                 (snd (processJob None Inr None
                         (abc_workflow (returns (JNum 1)) flaky (returns (JNum 3)))
                         example_job))))))
     = Inr (StoredState \<lparr>slug = ''B'', status = Completed, attempts = 0, data = JNull,
                         error = JStr ''boom'', result = JNum 2\<rparr>)
   \<and> getState ''C''
     (redeliver
       (snd (processJob None Inr None
               (abc_workflow (returns (JNum 1)) flaky (returns (JNum 3)))
               (redeliver
                 (snd (processJob None Inr None
                         (abc_workflow (returns (JNum 1)) flaky (returns (JNum 3)))
                         example_job))))))
     = Inr (StoredState \<lparr>slug = ''C'', status = Completed, attempts = 0, data = JNull,
                         error = JNull, result = JNum 3\<rparr>)"
proof -
  have sc: "Inr (source example_data) = (Inr (source example_data) :: exn + jsval)" by simp
  note S = replay_scenario [where sch = Inr and cfg = None and tok = None
      and hA = "returns (JNum 1)" and hB = flaky and hC = "returns (JNum 3)",
      OF example_job_parsed example_data_fields(1) example_data_state sc
         example_handlers refl refl]
  from S(4) S(5) S(6) show ?thesis by simp
qed

section \<open>Log entries\<close>

lemma executor_execute_flushes:
  "js_logs (state_data (snd (executor_execute wid fn x))) =
     js_logs (state_data (snd (executor_try wid fn x))) @ ctx_logs (snd (executor_try wid fn x))"
  "saved (snd (executor_execute wid fn x)) =
     Some (state_data (snd (executor_execute wid fn x)))"
  by (simp_all add: executor_execute_def case_prod_beta state_updateData_def state_finish_def
      wrapUp_def split: option.splits)

text \<open>
  C6 (amended). An entry written through the runner context's leveled logger is added to
  the logger's in-memory list and touches neither the job's data nor the stored payload.
  The closing block of \<open>processJob\<close> stores the payload with the formatted attempts
  added and nothing else: the stored object has the five keys of the job schema, none of
  them for logs, and the entries stay in the in-memory list; they are not persisted. In
  \<open>ActiveJobExecutor.execute\<close>, whatever the workflow function does (return, suspend
  or throw), the entries buffered in the context when the \<open>try\<close> and \<open>catch\<close> blocks
  are done are appended to the logs of the job state, and the job state saved last is
  that job state.
\<close>

theorem log_buffer_and_flush:
  "logs (log lv m v s) = logs s @ [\<lparr>level = lv, message = m, log_data = v\<rparr>]
   \<and> bull_data (log lv m v s) = bull_data s
   \<and> stored (log lv m v s) = stored s
   \<and> (getParsedData s = Inr d \<longrightarrow>
         stored (finalize s) = encode_job (finalized d s)
       \<and> obj_keys (stored (finalize s)) =
           [''source'', ''__prepared'', ''__state'', ''__attempts'', ''__step_attempts'']
       \<and> source (finalized d s) = source d \<and> state (finalized d s) = state d
       \<and> logs (finalize s) = logs s)
   \<and> ctx_logs (ctx_log lv m v x) = ctx_logs x @ [\<lparr>level = lv, message = m, log_data = v\<rparr>]
   \<and> js_logs (state_data (snd (executor_execute wid fn x))) =
       js_logs (state_data (snd (executor_try wid fn x)))
       @ ctx_logs (snd (executor_try wid fn x))
   \<and> saved (snd (executor_execute wid fn x)) =
       Some (state_data (snd (executor_execute wid fn x)))"
proof (intro conjI impI)
  assume g: "getParsedData s = Inr d"
  from finalize_of(1) [OF g] show "stored (finalize s) = encode_job (finalized d s)" .
  then show "obj_keys (stored (finalize s)) =
           [''source'', ''__prepared'', ''__state'', ''__attempts'', ''__step_attempts'']"
    by simp
  show "source (finalized d s) = source d" by (simp add: finalized_def)
  show "state (finalized d s) = state d" by simp
  from finalize_of(4) [OF g] show "logs (finalize s) = logs s" .
qed (simp_all add: ctx_log_def executor_execute_flushes)

theorem log_buffer_and_flush_witness:
  "stored (finalize (log Info ''hello'' NoData example_job)) =
     encode_job (example_data\<lparr>job_attempts :=
       [\<lparr>a_type = JobAttempt, a_status = AttemptActive, a_name = ''job'', a_start = 0,
         a_end = Num 0, a_duration = Num 0, a_error = JNull\<rparr>]\<rparr>)
   \<and> logs (finalize (log Info ''hello'' NoData example_job)) =
       [\<lparr>level = Info, message = ''hello'', log_data = NoData\<rparr>]
   \<and> js_logs (state_data (snd (executor_execute ''wf'' executor_logging_workflow
                                  example_executor))) =
       [\<lparr>level = Debug, message = ''Started execution of workflow wf'', log_data = NoData\<rparr>,
        \<lparr>level = Info, message = ''hello'', log_data = NoData\<rparr>,
        \<lparr>level = Debug, message = ''Execution of workflow wf completed'',
         log_data = NoData\<rparr>]
   \<and> saved (snd (executor_execute ''wf'' executor_logging_workflow example_executor)) =
       Some (state_data (snd (executor_execute ''wf'' executor_logging_workflow
                                example_executor)))"
proof -
  have g: "getParsedData (log Info ''hello'' NoData example_job) = Inr example_data"
    by (simp add: log_def)
  have f: "finalized example_data (log Info ''hello'' NoData example_job) =
      example_data\<lparr>job_attempts :=
       [\<lparr>a_type = JobAttempt, a_status = AttemptActive, a_name = ''job'', a_start = 0,
         a_end = Num 0, a_duration = Num 0, a_error = JNull\<rparr>]\<rparr>"
    by (simp add: finalized_def formatAttempts_def format_def dateNow_def log_def
        example_job_def delivered_def)
  have t: "snd (executor_try ''wf'' executor_logging_workflow example_executor) =
      example_executor\<lparr>ctx_attempt := Some AttemptCompleted,
        ctx_logs :=
          [\<lparr>level = Debug, message = ''Started execution of workflow wf'', log_data = NoData\<rparr>,
           \<lparr>level = Info, message = ''hello'', log_data = NoData\<rparr>,
           \<lparr>level = Debug, message = ''Execution of workflow wf completed'',
            log_data = NoData\<rparr>]\<rparr>"
    by (simp add: executor_try_def executor_logging_workflow_def ctx_log_def state_start_def
        state_complete_def example_executor_def)
  have e: "js_logs (state_data example_executor) = []"
    by (simp add: example_executor_def)
  from log_buffer_and_flush [where s = "log Info ''hello'' NoData example_job"
      and d = example_data and wid = "''wf''" and fn = executor_logging_workflow
      and x = example_executor] g
  show ?thesis by (simp add: f t e)
qed

text \<open>
  C6 as stated fails on the runner: a workflow that logs one entry and returns leaves
  the entry in the in-memory list of the context's logger, and the payload that
  \<open>processJob\<close> stores at its end has the job attempt added and no log entry.
\<close>

theorem runner_logs_not_persisted:
  "fst (processJob None Inr None logging_workflow example_job) = Inr JNull
   \<and> logs (snd (processJob None Inr None logging_workflow example_job)) =
       [\<lparr>level = Info, message = ''hello'', log_data = NoData\<rparr>]
   \<and> stored (snd (processJob None Inr None logging_workflow example_job)) =
       encode_job (example_data\<lparr>job_attempts :=
         [\<lparr>a_type = JobAttempt, a_status = AttemptActive, a_name = ''job'', a_start = 0,
           a_end = Num 1, a_duration = Num 1, a_error = JNull\<rparr>]\<rparr>)
   \<and> obj_keys (stored (snd (processJob None Inr None logging_workflow example_job))) =
       [''source'', ''__prepared'', ''__state'', ''__attempts'', ''__step_attempts'']"
proof -
  have "fst (processJob None Inr None logging_workflow example_job) = Inr JNull"
    "logs (snd (processJob None Inr None logging_workflow example_job)) =
       [\<lparr>level = Info, message = ''hello'', log_data = NoData\<rparr>]"
    "stored (snd (processJob None Inr None logging_workflow example_job)) =
       encode_job (example_data\<lparr>job_attempts :=
         [\<lparr>a_type = JobAttempt, a_status = AttemptActive, a_name = ''job'', a_start = 0,
           a_end = Num 1, a_duration = Num 1, a_error = JNull\<rparr>]\<rparr>)"
    by (simp_all add: invocation_defs logging_workflow_def log_def new_attempt_def dateNow_def
        example_data_def)
  then show ?thesis by simp
qed

end
